theory Spec2Isabelle
  imports Main "HOL-Library.Sublist" "HOL-Library.AList"
begin

section \<open>Platform data\<close>

text \<open>
  The worker script \<^verbatim>\<open>sw.js\<close> registers handlers for the install, activate and fetch
  events of a service worker. The handlers are chains of promises over three platform
  services: the network (\<^verbatim>\<open>fetch\<close>), the cache storage (\<^verbatim>\<open>caches\<close>) and the console.
  The embedding passes the cache storage explicitly, reads the network from a table,
  records what a promise settles to as a value, and lists the effects a handler causes
  in the order in which the script causes them.
\<close>

text \<open>The \<^verbatim>\<open>type\<close> attribute of a response.\<close>

datatype response_type = Basic | Cors | DefaultType | ErrorType | Opaque | OpaqueRedirect

text \<open>
  A response, with its attributes \<^verbatim>\<open>status\<close>, \<^verbatim>\<open>type\<close>, \<^verbatim>\<open>redirected\<close> (the response is
  the end of a redirection that the fetch followed), \<^verbatim>\<open>headers\<close> and the body. The body
  is the sequence of bytes of the response; a body given as a script string is its UTF-8
  encoding.
\<close>

record response =
  status :: nat
  rtype :: response_type
  redirected :: bool
  headers :: "(string \<times> string) list"
  body :: string

text \<open>\<^verbatim>\<open>response.ok\<close>: the status is in the range 200 to 299.\<close>

definition ok :: "response \<Rightarrow> bool" where
  "ok r = (200 \<le> status r \<and> status r \<le> 299)"

text \<open>
  The request of a fetch event, with the attributes the script reads: \<^verbatim>\<open>method\<close>,
  \<^verbatim>\<open>url\<close> (the serialized URL, which is also the identity under which the cache stores
  a response for the request), \<^verbatim>\<open>new URL(url).pathname\<close> and
  \<^verbatim>\<open>headers.get('accept')\<close>, which is \<^verbatim>\<open>null\<close> (here \<open>None\<close>) when the request has no such
  header.
\<close>

record request =
  req_method :: string
  url :: string
  pathname :: string
  accept :: "string option"

text \<open>
  What a promise settles to. \<open>NetworkError\<close> is the reason with which \<^verbatim>\<open>fetch\<close> rejects,
  \<open>NullTypeError\<close> the exception of a property access on \<^verbatim>\<open>null\<close>, \<open>AddAllError\<close> and
  \<open>PutError\<close> the reasons with which \<^verbatim>\<open>cache.addAll\<close> and \<^verbatim>\<open>cache.put\<close> reject.
\<close>

datatype js_error = NetworkError | NullTypeError | AddAllError | PutError

datatype 'a settled = Fulfilled 'a | Rejected js_error

text \<open>
  What the fetch event ends with: either the handler returned without calling
  \<^verbatim>\<open>event.respondWith\<close>, so the browser handles the request itself, or it passed a promise
  to \<^verbatim>\<open>respondWith\<close>, which settles to a response, to \<^verbatim>\<open>undefined\<close> (\<open>Fulfilled None\<close>) or
  to a rejection.
\<close>

datatype respond = NotIntercepted | RespondWith "response option settled"

text \<open>
  The network, as seen during one run of a handler: a table of the URLs that answer,
  each with the response that \<^verbatim>\<open>fetch\<close> fulfills with; \<^verbatim>\<open>fetch\<close> rejects for a URL that
  is not in the table. A handler fetches every URL at most once, so one table describes
  a run. The option \<^verbatim>\<open>{ mode: 'cors' }\<close> of the install handler only constrains what
  the network answers and is part of the table.
\<close>

type_synonym network = "(string \<times> response) list"

definition fetch :: "network \<Rightarrow> string \<Rightarrow> response settled" where
  "fetch net u =
     (case map_of net u of None \<Rightarrow> Rejected NetworkError | Some r \<Rightarrow> Fulfilled r)"

text \<open>
  The cache storage of the origin: the named caches in the order of their creation,
  each a list of stored responses by request URL.
\<close>

type_synonym cache = "(string \<times> response) list"
type_synonym cache_storage = "(string \<times> cache) list"

text \<open>\<^verbatim>\<open>caches.open(name)\<close> creates the cache when the storage has none of that name.\<close>

definition caches_open :: "cache_storage \<Rightarrow> string \<Rightarrow> cache_storage" where
  "caches_open st name =
     (case map_of st name of None \<Rightarrow> st @ [(name, [])] | Some c \<Rightarrow> st)"

text \<open>
  What \<^verbatim>\<open>cache.put\<close> refuses. The platform rejects the call with a type error when the
  status of the response is 206 and when the response has a \<^verbatim>\<open>Vary\<close> header with the
  field \<^verbatim>\<open>*\<close>. The name of a header is compared without regard to case; its value is a
  list of fields separated by commas, with optional blanks around a field. (The platform
  also refuses a request that is not a GET of an \<^verbatim>\<open>http\<close> or \<^verbatim>\<open>https\<close> URL; the script
  puts GET requests only, for URLs of the worker's own origin, for requests that a cache
  already holds and for the \<^verbatim>\<open>https\<close> URLs of \<^verbatim>\<open>EXTERNAL_ASSETS\<close>.)
\<close>

definition lower :: "char \<Rightarrow> char" where
  "lower c =
     (case map_of (zip ''ABCDEFGHIJKLMNOPQRSTUVWXYZ'' ''abcdefghijklmnopqrstuvwxyz'') c of
        None \<Rightarrow> c
      | Some l \<Rightarrow> l)"

fun split_commas :: "string \<Rightarrow> string list" where
  "split_commas [] = [] # []"
| "split_commas (c # s) =
     (if c = CHR '','' then [] # split_commas s
      else (case split_commas s of [] \<Rightarrow> [c] # [] | f # fs \<Rightarrow> (c # f) # fs))"

definition is_blank :: "char \<Rightarrow> bool" where
  "is_blank c = (c = CHR '' '' \<or> c = CHR 0x09)"

definition trim :: "string \<Rightarrow> string" where
  "trim s = rev (dropWhile is_blank (rev (dropWhile is_blank s)))"

definition vary_star :: "response \<Rightarrow> bool" where
  "vary_star r =
     list_ex (\<lambda>h. map lower (fst h) = ''vary'' \<and>
                   list_ex (\<lambda>f. trim f = ''*'') (split_commas (snd h)))
       (headers r)"

definition put_accepts :: "response \<Rightarrow> bool" where
  "put_accepts r = (status r \<noteq> 206 \<and> \<not> vary_star r)"

text \<open>The entry of the key in the cache of that name is replaced by the response.\<close>

definition cache_store :: "cache_storage \<Rightarrow> string \<Rightarrow> string \<Rightarrow> response \<Rightarrow> cache_storage" where
  "cache_store st name key r =
     (case map_of st name of
        None \<Rightarrow> st
      | Some c \<Rightarrow> AList.update name (AList.update key r c) st)"

text \<open>
  \<^verbatim>\<open>cache.put(key, response)\<close> on the cache of that name: the promise of the call and
  the storage it leaves. A call that the platform refuses rejects and stores nothing.
\<close>

definition cache_put ::
  "cache_storage \<Rightarrow> string \<Rightarrow> string \<Rightarrow> response \<Rightarrow> unit settled \<times> cache_storage" where
  "cache_put st name key r =
     (if put_accepts r then (Fulfilled (), cache_store st name key r)
      else (Rejected PutError, st))"

text \<open>
  \<^verbatim>\<open>caches.match(key)\<close>, called on the storage with no \<^verbatim>\<open>cacheName\<close> option: the caches are
  searched in the order of their creation and the first stored response for the key is
  the result; \<^verbatim>\<open>undefined\<close> (\<open>None\<close>) when no cache has one.
\<close>

fun caches_match :: "cache_storage \<Rightarrow> string \<Rightarrow> response option" where
  "caches_match [] key = None"
| "caches_match ((name, c) # rest) key =
     (case map_of c key of Some r \<Rightarrow> Some r | None \<Rightarrow> caches_match rest key)"

text \<open>\<^verbatim>\<open>caches.keys()\<close> and \<^verbatim>\<open>caches.delete(name)\<close>.\<close>

definition caches_keys :: "cache_storage \<Rightarrow> string list" where
  "caches_keys st = map fst st"

definition caches_delete :: "cache_storage \<Rightarrow> string \<Rightarrow> cache_storage" where
  "caches_delete st name = AList.delete name st"

text \<open>The content of the cache of a name, \<open>None\<close> when the storage has no such cache.\<close>

definition cache_of :: "cache_storage \<Rightarrow> string \<Rightarrow> cache option" where
  "cache_of st name = map_of st name"

text \<open>The response stored for a key in the cache of a name.\<close>

definition entry_of :: "cache_storage \<Rightarrow> string \<Rightarrow> string \<Rightarrow> response option" where
  "entry_of st name key = (case map_of st name of None \<Rightarrow> None | Some c \<Rightarrow> map_of c key)"

text \<open>
  The effects of a handler: the calls of the platform, listed in the order in which the
  script makes them. \<open>Responded\<close> marks the return of the value that settles the promise
  given to \<^verbatim>\<open>respondWith\<close>.
\<close>

datatype effect =
    ConsoleLog string
  | NetFetch string
  | CacheOpen string
  | CacheAddAll string "string list"
  | CacheMatch string
  | CachePut string string
  | CacheKeys
  | CacheDelete string
  | SkipWaiting
  | ClientsClaim
  | Responded

text \<open>The result of running a handler: what it settles to, the storage left, the effects.\<close>

record 'a run =
  outcome :: 'a
  storage :: cache_storage
  trace :: "effect list"

section \<open>Strings of the script\<close>

text \<open>\<^verbatim>\<open>s.startsWith(p)\<close> and \<^verbatim>\<open>s.includes(sub)\<close>.\<close>

definition startsWith :: "string \<Rightarrow> string \<Rightarrow> bool" where
  "startsWith s p = prefix p s"

fun includes_str :: "string \<Rightarrow> string \<Rightarrow> bool" where
  "includes_str [] sub = (sub = [])"
| "includes_str (c # s) sub = (prefix sub (c # s) \<or> includes_str s sub)"

text \<open>
  \<^verbatim>\<open>JSON.stringify\<close> on a string: the string in double quotes, with the double quote, the
  backslash and the control characters escaped; every other byte is kept.
\<close>

definition hex_digit :: "nat \<Rightarrow> char" where
  "hex_digit n = ''0123456789abcdef'' ! (n mod 16)"

definition json_escape :: "char \<Rightarrow> string" where
  "json_escape c =
     (if c = CHR 0x22 then [CHR 0x5C, CHR 0x22]
      else if c = CHR 0x5C then [CHR 0x5C, CHR 0x5C]
      else if c = CHR 0x08 then [CHR 0x5C, CHR ''b'']
      else if c = CHR 0x09 then [CHR 0x5C, CHR ''t'']
      else if c = CHR 0x0A then [CHR 0x5C, CHR ''n'']
      else if c = CHR 0x0C then [CHR 0x5C, CHR ''f'']
      else if c = CHR 0x0D then [CHR 0x5C, CHR ''r'']
      else if (of_char c :: nat) < 32
        then [CHR 0x5C, CHR ''u'', CHR ''0'', CHR ''0'',
              hex_digit (of_char c div 16), hex_digit (of_char c)]
      else [c])"

definition json_string :: "string \<Rightarrow> string" where
  "json_string s = [CHR 0x22] @ concat (map json_escape s) @ [CHR 0x22]"

text \<open>\<^verbatim>\<open>JSON.stringify({ k: v })\<close> for an object with one property whose value is a string.\<close>

definition json_stringify1 :: "string \<Rightarrow> string \<Rightarrow> string" where
  "json_stringify1 k v = ''{'' @ json_string k @ '':'' @ json_string v @ ''}''"

section \<open>Constants of the script\<close>

definition CACHE_NAME :: string where
  "CACHE_NAME = ''anti333-cache-v2''"

definition STATIC_ASSETS :: "string list" where
  "STATIC_ASSETS =
     [''/'',
      ''/index.html'',
      ''/manifest.json'',
      ''/favicon-32.ico'',
      ''/favicon-96.png'',
      ''/apple-touch-icon.png'',
      ''/icon-192.png'',
      ''/icon-512.png'']"

definition EXTERNAL_ASSETS :: "string list" where
  "EXTERNAL_ASSETS =
     [''https://cdnjs.cloudflare.com/ajax/libs/mammoth/1.6.0/mammoth.browser.min.js'',
      ''https://unpkg.com/docx@8.5.0/build/index.umd.js'',
      ''https://cdnjs.cloudflare.com/ajax/libs/FileSaver.js/2.0.5/FileSaver.min.js'',
      ''https://cdnjs.cloudflare.com/ajax/libs/pdf.js/3.11.174/pdf.min.js'',
      ''https://cdnjs.cloudflare.com/ajax/libs/pdf.js/3.11.174/pdf.worker.min.js'',
      ''https://cdnjs.cloudflare.com/ajax/libs/jspdf/2.5.1/jspdf.umd.min.js'']"

text \<open>
  The message of the substitute response, \<^verbatim>\<open>Offline.\<close> followed by a Russian sentence
  (check the connection to the internet), in UTF-8.
\<close>

definition offline_message :: string where
  "offline_message =
     ''Offline. '' @
     [CHR 0xD0, CHR 0x9F, CHR 0xD1, CHR 0x80, CHR 0xD0, CHR 0xBE, CHR 0xD0, CHR 0xB2,
      CHR 0xD0, CHR 0xB5, CHR 0xD1, CHR 0x80, CHR 0xD1, CHR 0x8C, CHR 0xD1, CHR 0x82,
      CHR 0xD0, CHR 0xB5] @ '' '' @
     [CHR 0xD0, CHR 0xBF, CHR 0xD0, CHR 0xBE, CHR 0xD0, CHR 0xB4, CHR 0xD0, CHR 0xBA,
      CHR 0xD0, CHR 0xBB, CHR 0xD1, CHR 0x8E, CHR 0xD1, CHR 0x87, CHR 0xD0, CHR 0xB5,
      CHR 0xD0, CHR 0xBD, CHR 0xD0, CHR 0xB8, CHR 0xD0, CHR 0xB5] @ '' '' @
     [CHR 0xD0, CHR 0xBA] @ '' '' @
     [CHR 0xD0, CHR 0xB8, CHR 0xD0, CHR 0xBD, CHR 0xD1, CHR 0x82, CHR 0xD0, CHR 0xB5,
      CHR 0xD1, CHR 0x80, CHR 0xD0, CHR 0xBD, CHR 0xD0, CHR 0xB5, CHR 0xD1, CHR 0x82,
      CHR 0xD1, CHR 0x83] @ ''.''"

text \<open>
  \<^verbatim>\<open>new Response(JSON.stringify({ error: ... }), { status: 503, headers: {...} })\<close>.
  A response made by the constructor has the type \<^verbatim>\<open>default\<close>.
\<close>

definition offline_response :: response where
  "offline_response =
     \<lparr>status = 503, rtype = DefaultType, redirected = False,
      headers = [(''Content-Type'', ''application/json'')],
      body = json_stringify1 ''error'' offline_message\<rparr>"

text \<open>
  A string given where the platform expects a request (\<^verbatim>\<open>'/'\<close>, the entries of
  \<^verbatim>\<open>STATIC_ASSETS\<close>) is resolved against the location of the worker; for a path that
  starts with a slash the URL is the origin of the worker followed by the path.
\<close>

definition resolve :: "string \<Rightarrow> string \<Rightarrow> string" where
  "resolve origin path = origin @ path"

section \<open>The fetch handler\<close>

text \<open>The API branch: \<^verbatim>\<open>fetch(event.request).catch(() => new Response(...))\<close>.\<close>

definition api_branch :: "network \<Rightarrow> cache_storage \<Rightarrow> request \<Rightarrow> respond run" where
  "api_branch net st req =
     (case fetch net (url req) of
        Fulfilled r \<Rightarrow>
          \<lparr>outcome = RespondWith (Fulfilled (Some r)), storage = st,
           trace = [NetFetch (url req), Responded]\<rparr>
      | Rejected e \<Rightarrow>
          \<lparr>outcome = RespondWith (Fulfilled (Some offline_response)), storage = st,
           trace = [NetFetch (url req), Responded]\<rparr>)"

text \<open>
  The cache had a response: the callback starts the revalidating fetch inside
  \<^verbatim>\<open>event.waitUntil\<close> and returns the cached response; the callbacks of the fetch run
  when the fetch has settled. The promise of the put is not returned to the chain, so a
  rejection of the put is handled nowhere and changes nothing but the storage left.
\<close>

definition hit_branch :: "network \<Rightarrow> cache_storage \<Rightarrow> request \<Rightarrow> response \<Rightarrow> respond run" where
  "hit_branch net st req cachedResponse =
     (case fetch net (url req) of
        Fulfilled r \<Rightarrow>
          (if ok r
           then \<lparr>outcome = RespondWith (Fulfilled (Some cachedResponse)),
                 storage = snd (cache_put (caches_open st CACHE_NAME) CACHE_NAME (url req) r),
                 trace = [CacheMatch (url req), NetFetch (url req), Responded,
                          CacheOpen CACHE_NAME, CachePut CACHE_NAME (url req)]\<rparr>
           else \<lparr>outcome = RespondWith (Fulfilled (Some cachedResponse)), storage = st,
                 trace = [CacheMatch (url req), NetFetch (url req), Responded]\<rparr>)
      | Rejected e \<Rightarrow>
          \<lparr>outcome = RespondWith (Fulfilled (Some cachedResponse)), storage = st,
           trace = [CacheMatch (url req), NetFetch (url req), Responded]\<rparr>)"

text \<open>
  The cache had none: the response of the network is returned, and stored when it is
  \<^verbatim>\<open>ok\<close> and of type \<^verbatim>\<open>basic\<close>; the callback opens the cache before it returns, and
  the put follows when the cache is open. The \<^verbatim>\<open>catch\<close> callback reads the accept
  header and calls \<^verbatim>\<open>includes\<close> on the value, which throws when the value is \<^verbatim>\<open>null\<close>;
  it returns the result of \<^verbatim>\<open>caches.match('/')\<close> for a value with \<^verbatim>\<open>text/html\<close> and
  nothing otherwise.
\<close>

definition miss_branch :: "string \<Rightarrow> network \<Rightarrow> cache_storage \<Rightarrow> request \<Rightarrow> respond run" where
  "miss_branch origin net st req =
     (case fetch net (url req) of
        Fulfilled r \<Rightarrow>
          (if ok r \<and> rtype r = Basic
           then \<lparr>outcome = RespondWith (Fulfilled (Some r)),
                 storage = snd (cache_put (caches_open st CACHE_NAME) CACHE_NAME (url req) r),
                 trace = [CacheMatch (url req), NetFetch (url req), CacheOpen CACHE_NAME,
                          Responded, CachePut CACHE_NAME (url req)]\<rparr>
           else \<lparr>outcome = RespondWith (Fulfilled (Some r)), storage = st,
                 trace = [CacheMatch (url req), NetFetch (url req), Responded]\<rparr>)
      | Rejected e \<Rightarrow>
          (case accept req of
             None \<Rightarrow>
               \<lparr>outcome = RespondWith (Rejected NullTypeError), storage = st,
                trace = [CacheMatch (url req), NetFetch (url req), Responded]\<rparr>
           | Some a \<Rightarrow>
               (if includes_str a ''text/html''
                then \<lparr>outcome = RespondWith (Fulfilled (caches_match st (resolve origin ''/''))),
                      storage = st,
                      trace = [CacheMatch (url req), NetFetch (url req),
                               CacheMatch (resolve origin ''/''), Responded]\<rparr>
                else \<lparr>outcome = RespondWith (Fulfilled None), storage = st,
                      trace = [CacheMatch (url req), NetFetch (url req), Responded]\<rparr>)))"

text \<open>The listener of the fetch event.\<close>

definition fetch_handler :: "string \<Rightarrow> network \<Rightarrow> cache_storage \<Rightarrow> request \<Rightarrow> respond run" where
  "fetch_handler origin net st req =
     (if req_method req \<noteq> ''GET''
      then \<lparr>outcome = NotIntercepted, storage = st, trace = []\<rparr>
      else if startsWith (pathname req) ''/api/''
      then api_branch net st req
      else (case caches_match st (url req) of
              Some cachedResponse \<Rightarrow> hit_branch net st req cachedResponse
            | None \<Rightarrow> miss_branch origin net st req))"

section \<open>The install handler\<close>

text \<open>
  \<^verbatim>\<open>cache.addAll(urls)\<close> is an operation of the platform: it fetches every URL and
  rejects, storing nothing, when a fetch rejects, when a response is not \<^verbatim>\<open>ok\<close> and when
  a response is one that \<^verbatim>\<open>cache.put\<close> refuses; otherwise it stores every response under
  its URL in one step.
\<close>

definition add_all ::
  "network \<Rightarrow> cache_storage \<Rightarrow> string \<Rightarrow> string list \<Rightarrow> unit settled \<times> cache_storage" where
  "add_all net st name urls =
     (if list_all (\<lambda>u. case fetch net u of
                          Fulfilled r \<Rightarrow> ok r \<and> put_accepts r
                        | Rejected e \<Rightarrow> False) urls
      then (Fulfilled (),
            fold (\<lambda>u s. case fetch net u of
                           Fulfilled r \<Rightarrow> cache_store s name u r
                         | Rejected e \<Rightarrow> s) urls st)
      else (Rejected AddAllError, st))"

text \<open>
  One entry of \<^verbatim>\<open>EXTERNAL_ASSETS\<close>, once its fetch has settled: an \<^verbatim>\<open>ok\<close> response is put
  into the cache, any other response is dropped in silence, and a rejection, of the
  fetch or of the put, is caught and logged.
\<close>

definition settle_external ::
  "network \<Rightarrow> string \<Rightarrow> cache_storage \<Rightarrow> cache_storage \<times> effect list" where
  "settle_external net u st =
     (case fetch net u of
        Fulfilled r \<Rightarrow>
          (if ok r
           then (case cache_put st CACHE_NAME u r of
                   (Fulfilled x, st1) \<Rightarrow> (st1, [CachePut CACHE_NAME u])
                 | (Rejected e, st1) \<Rightarrow>
                     (st1, [CachePut CACHE_NAME u,
                            ConsoleLog (''[SW] Could not cache: '' @ u)]))
           else (st, []))
      | Rejected e \<Rightarrow> (st, [ConsoleLog (''[SW] Could not cache: '' @ u)]))"

text \<open>
  \<^verbatim>\<open>Promise.allSettled\<close> over the entries. The fetches run side by side and settle in an
  order the script does not fix; the entries have distinct keys, and the list order is
  taken here.
\<close>

fun settle_externals ::
  "network \<Rightarrow> string list \<Rightarrow> cache_storage \<Rightarrow> cache_storage \<times> effect list" where
  "settle_externals net [] st = (st, [])"
| "settle_externals net (u # us) st =
     (case settle_external net u st of
        (st1, tr1) \<Rightarrow>
          (case settle_externals net us st1 of
             (st2, tr2) \<Rightarrow> (st2, tr1 @ tr2)))"

text \<open>
  The listener of the install event: the promise given to \<^verbatim>\<open>event.waitUntil\<close>. When
  \<^verbatim>\<open>addAll\<close> rejects, the callbacks that fetch the external entries and call
  \<^verbatim>\<open>skipWaiting\<close> do not run and the promise rejects.
\<close>

definition install :: "string \<Rightarrow> network \<Rightarrow> cache_storage \<Rightarrow> unit settled run" where
  "install origin net st =
     (let st1 = caches_open st CACHE_NAME;
          urls = map (resolve origin) STATIC_ASSETS;
          pre = [ConsoleLog ''[SW] Installing service worker...'',
                 CacheOpen CACHE_NAME,
                 ConsoleLog ''[SW] Caching static assets...'',
                 CacheAddAll CACHE_NAME urls]
      in case add_all net st1 CACHE_NAME urls of
           (Rejected e, st2) \<Rightarrow> \<lparr>outcome = Rejected e, storage = st2, trace = pre\<rparr>
         | (Fulfilled x, st2) \<Rightarrow>
             (case settle_externals net EXTERNAL_ASSETS st2 of
                (st3, tr) \<Rightarrow>
                  \<lparr>outcome = Fulfilled (), storage = st3,
                   trace = pre @ map NetFetch EXTERNAL_ASSETS @ tr @ [SkipWaiting]\<rparr>))"

section \<open>The activate handler\<close>

text \<open>
  The listener of the activate event: every name of \<^verbatim>\<open>caches.keys()\<close> other than
  \<^verbatim>\<open>CACHE_NAME\<close> is logged and deleted, and when all deletions are done
  \<^verbatim>\<open>clients.claim()\<close> is called.
\<close>

definition stale_names :: "cache_storage \<Rightarrow> string list" where
  "stale_names st = filter (\<lambda>name. name \<noteq> CACHE_NAME) (caches_keys st)"

definition activate :: "cache_storage \<Rightarrow> unit settled run" where
  "activate st =
     \<lparr>outcome = Fulfilled (),
      storage = fold (\<lambda>name s. caches_delete s name) (stale_names st) st,
      trace = [ConsoleLog ''[SW] Activating service worker...'', CacheKeys] @
              concat (map (\<lambda>name. [ConsoleLog (''[SW] Deleting old cache: '' @ name),
                                      CacheDelete name]) (stale_names st)) @
              [ClientsClaim]\<rparr>"

section \<open>Facts about the cache storage\<close>

lemma map_of_caches_open:
  "map_of (caches_open st n) m =
     (if m = n then Some (case map_of st n of None \<Rightarrow> [] | Some c \<Rightarrow> c) else map_of st m)"
  by (simp add: caches_open_def map_add_def split: option.splits)

lemma entry_of_caches_open: "entry_of (caches_open st n) m k = entry_of st m k"
  by (simp add: entry_of_def map_of_caches_open split: option.splits)

lemma map_of_cache_store:
  "map_of st n = Some c \<Longrightarrow>
     map_of (cache_store st n k r) m = (if m = n then Some (AList.update k r c) else map_of st m)"
  by (simp add: cache_store_def update_conv')

lemma entry_of_cache_store:
  "map_of st n \<noteq> None \<Longrightarrow>
     entry_of (cache_store st n k r) m j =
       (if m = n \<and> j = k then Some r else entry_of st m j)"
  by (auto simp: entry_of_def map_of_cache_store update_conv')

lemma entry_of_open_store:
  "entry_of (cache_store (caches_open st n) n k r) m j =
     (if m = n \<and> j = k then Some r else entry_of st m j)"
  by (simp add: entry_of_cache_store map_of_caches_open entry_of_caches_open)

lemma cache_store_present:
  assumes "map_of st n \<noteq> None"
  shows "map_of (cache_store st n k r) n \<noteq> None"
proof -
  from assms obtain c where "map_of st n = Some c" by blast
  then show ?thesis by (simp add: map_of_cache_store)
qed

lemma snd_cache_put:
  "snd (cache_put st n k r) = (if put_accepts r then cache_store st n k r else st)"
  by (simp add: cache_put_def)

lemma caches_match_None:
  "(caches_match st k = None) = (\<forall>c \<in> snd ` set st. map_of c k = None)"
  by (induction st k rule: caches_match.induct) (auto split: option.splits)

lemma caches_match_first:
  "\<forall>c \<in> snd ` set pre. map_of c k = None \<Longrightarrow> map_of c k = Some r \<Longrightarrow>
     caches_match (pre @ (n, c) # post) k = Some r"
  by (induction pre k rule: caches_match.induct) (auto split: option.splits)



lemma caches_match_entry_None: "caches_match st k = None \<Longrightarrow> entry_of st n k = None"
proof -
  assume m: "caches_match st k = None"
  show ?thesis
  proof (cases "map_of st n")
    case None
    then show ?thesis by (simp add: entry_of_def)
  next
    case (Some c)
    then have "c \<in> snd ` set st"
      by (metis map_of_SomeD snd_conv image_eqI)
    with m have "map_of c k = None"
      by (auto simp: caches_match_None)
    with Some show ?thesis by (simp add: entry_of_def)
  qed
qed




lemma fold_caches_delete:
  "fold (\<lambda>name s. caches_delete s name) ns st = filter (\<lambda>e. fst e \<notin> set ns) st"
proof (induction ns arbitrary: st)
  case Nil
  show ?case by simp
next
  case (Cons n ns)
  have "caches_delete st n = filter (\<lambda>e. fst e \<noteq> n) st"
    by (simp add: caches_delete_def AList.delete_eq case_prod_unfold eq_commute)
  then show ?case
    using Cons.IH [of "caches_delete st n"] by (simp add: conj_commute)
qed

lemma map_of_filter_key: "map_of (filter (\<lambda>e. fst e = k) st) k = map_of st k"
  by (induction st) auto

section \<open>Facts about the handlers\<close>

lemma offline_body:
  "json_stringify1 ''error'' offline_message =
     ''{'' @
     [CHR 0x22] @
     ''error'' @
     [CHR 0x22] @
     '':'' @
     [CHR 0x22] @
     ''Offline. '' @
     [CHR 0xD0, CHR 0x9F, CHR 0xD1, CHR 0x80, CHR 0xD0, CHR 0xBE, CHR 0xD0, CHR 0xB2,
      CHR 0xD0, CHR 0xB5, CHR 0xD1, CHR 0x80, CHR 0xD1, CHR 0x8C, CHR 0xD1, CHR 0x82,
      CHR 0xD0, CHR 0xB5] @
     '' '' @
     [CHR 0xD0, CHR 0xBF, CHR 0xD0, CHR 0xBE, CHR 0xD0, CHR 0xB4, CHR 0xD0, CHR 0xBA,
      CHR 0xD0, CHR 0xBB, CHR 0xD1, CHR 0x8E, CHR 0xD1, CHR 0x87, CHR 0xD0, CHR 0xB5,
      CHR 0xD0, CHR 0xBD, CHR 0xD0, CHR 0xB8, CHR 0xD0, CHR 0xB5] @
     '' '' @
     [CHR 0xD0, CHR 0xBA] @
     '' '' @
     [CHR 0xD0, CHR 0xB8, CHR 0xD0, CHR 0xBD, CHR 0xD1, CHR 0x82, CHR 0xD0, CHR 0xB5,
      CHR 0xD1, CHR 0x80, CHR 0xD0, CHR 0xBD, CHR 0xD0, CHR 0xB5, CHR 0xD1, CHR 0x82,
      CHR 0xD1, CHR 0x83] @
     ''.'' @
     [CHR 0x22] @
     ''}''"
  by (simp add: json_stringify1_def json_string_def json_escape_def offline_message_def)

lemma storage_activate: "storage (activate st) = filter (\<lambda>e. fst e = CACHE_NAME) st"
proof -
  have "filter (\<lambda>e. fst e \<notin> set (stale_names st)) st = filter (\<lambda>e. fst e = CACHE_NAME) st"
    by (rule filter_cong) (auto simp: stale_names_def caches_keys_def)
  then show ?thesis
    by (simp add: activate_def fold_caches_delete)
qed

lemma add_all_fails:
  "u \<in> set urls \<Longrightarrow> \<forall>r. fetch net u = Fulfilled r \<longrightarrow> \<not> (ok r \<and> put_accepts r) \<Longrightarrow>
     add_all net st name urls = (Rejected AddAllError, st)"
  by (auto simp: add_all_def list_all_iff split: settled.splits)

lemma fold_store_present:
  "map_of st n \<noteq> None \<Longrightarrow>
     map_of (fold (\<lambda>u s. case fetch net u of
                           Fulfilled r \<Rightarrow> cache_store s n u r
                         | Rejected e \<Rightarrow> s) urls st) n \<noteq> None"
proof (induction urls arbitrary: st)
  case Nil
  then show ?case by simp
next
  case (Cons u urls)
  show ?case
  proof (cases "fetch net u")
    case (Fulfilled r)
    then show ?thesis
      using Cons.IH [OF cache_store_present [OF Cons.prems, of u r]] by simp
  next
    case (Rejected e)
    then show ?thesis
      using Cons.IH [OF Cons.prems] by simp
  qed
qed

lemma fold_store_entry:
  "map_of st n \<noteq> None \<Longrightarrow> k \<notin> set urls \<Longrightarrow>
     entry_of (fold (\<lambda>u s. case fetch net u of
                             Fulfilled r \<Rightarrow> cache_store s n u r
                           | Rejected e \<Rightarrow> s) urls st) n k = entry_of st n k"
proof (induction urls arbitrary: st)
  case Nil
  then show ?case by simp
next
  case (Cons u urls)
  from Cons.prems have k: "k \<noteq> u" "k \<notin> set urls" by auto
  show ?case
  proof (cases "fetch net u")
    case (Fulfilled r)
    have "entry_of (cache_store st n u r) n k = entry_of st n k"
      using Cons.prems(1) k(1) by (simp add: entry_of_cache_store)
    then show ?thesis
      using Cons.IH [OF cache_store_present [OF Cons.prems(1), of u r] k(2)] Fulfilled by simp
  next
    case (Rejected e)
    then show ?thesis
      using Cons.IH [OF Cons.prems(1) k(2)] by simp
  qed
qed

lemma add_all_succeeds:
  "\<forall>u \<in> set urls. \<exists>r. fetch net u = Fulfilled r \<and> ok r \<and> put_accepts r \<Longrightarrow>
   map_of st n \<noteq> None \<Longrightarrow>
     \<exists>st2. add_all net st n urls = (Fulfilled (), st2) \<and> map_of st2 n \<noteq> None \<and>
       (\<forall>k. k \<notin> set urls \<longrightarrow> entry_of st2 n k = entry_of st n k)"
  using fold_store_present [of st n net urls] fold_store_entry [of st n _ urls net]
  by (auto simp: add_all_def list_all_iff split: settled.splits)

lemma settle_external_present:
  "map_of st CACHE_NAME \<noteq> None \<Longrightarrow> map_of (fst (settle_external net u st)) CACHE_NAME \<noteq> None"
  using cache_store_present [of st CACHE_NAME u]
  by (simp add: settle_external_def cache_put_def split: settled.splits)

lemma settle_external_entry:
  "map_of st CACHE_NAME \<noteq> None \<Longrightarrow>
     entry_of (fst (settle_external net u st)) CACHE_NAME k =
       (case fetch net u of
          Fulfilled r \<Rightarrow>
            if k = u \<and> ok r \<and> put_accepts r then Some r else entry_of st CACHE_NAME k
        | Rejected e \<Rightarrow> entry_of st CACHE_NAME k)"
  by (simp add: settle_external_def cache_put_def entry_of_cache_store split: settled.splits)

lemma settle_external_trace:
  "snd (settle_external net u st) =
     (case fetch net u of
        Fulfilled r \<Rightarrow>
          if ok r
          then if put_accepts r then [CachePut CACHE_NAME u]
               else [CachePut CACHE_NAME u, ConsoleLog (''[SW] Could not cache: '' @ u)]
          else []
      | Rejected e \<Rightarrow> [ConsoleLog (''[SW] Could not cache: '' @ u)])"
  by (simp add: settle_external_def cache_put_def split: settled.splits)

text \<open>
  What the cache of the current name holds for a key once every external entry has
  settled: the response of the network when the key is an entry whose fetch gave an
  \<^verbatim>\<open>ok\<close> response that the put accepted, whatever the other entries did, and what it
  held before otherwise.
\<close>

lemma settle_externals_entry:
  "map_of st CACHE_NAME \<noteq> None \<Longrightarrow>
     entry_of (fst (settle_externals net us st)) CACHE_NAME k =
       (case fetch net k of
          Fulfilled r \<Rightarrow>
            if k \<in> set us \<and> ok r \<and> put_accepts r then Some r else entry_of st CACHE_NAME k
        | Rejected e \<Rightarrow> entry_of st CACHE_NAME k)"
proof (induction us arbitrary: st)
  case Nil
  show ?case by (simp split: settled.splits)
next
  case (Cons u us)
  obtain st1 tr1 where s1: "settle_external net u st = (st1, tr1)"
    by (cases "settle_external net u st")
  have p1: "map_of st1 CACHE_NAME \<noteq> None"
    using settle_external_present [OF Cons.prems, of net u] s1 by simp
  have e1: "entry_of st1 CACHE_NAME k =
       (case fetch net u of
          Fulfilled r \<Rightarrow>
            if k = u \<and> ok r \<and> put_accepts r then Some r else entry_of st CACHE_NAME k
        | Rejected e \<Rightarrow> entry_of st CACHE_NAME k)"
    using settle_external_entry [OF Cons.prems, of net u k] s1 by simp
  obtain st2 tr2 where s2: "settle_externals net us st1 = (st2, tr2)"
    by (cases "settle_externals net us st1")
  have "entry_of (fst (settle_externals net (u # us) st)) CACHE_NAME k = entry_of st2 CACHE_NAME k"
    by (simp add: s1 s2)
  also have "\<dots> = (case fetch net k of
          Fulfilled r \<Rightarrow>
            if k \<in> set us \<and> ok r \<and> put_accepts r then Some r else entry_of st1 CACHE_NAME k
        | Rejected e \<Rightarrow> entry_of st1 CACHE_NAME k)"
    using Cons.IH [OF p1] s2 by simp
  finally have f: "entry_of (fst (settle_externals net (u # us) st)) CACHE_NAME k =
      (case fetch net k of
          Fulfilled r \<Rightarrow>
            if k \<in> set us \<and> ok r \<and> put_accepts r then Some r else entry_of st1 CACHE_NAME k
        | Rejected e \<Rightarrow> entry_of st1 CACHE_NAME k)" .
  show ?case
    unfolding f e1 by (auto split: settled.splits)
qed

text \<open>Which entries are logged and which are put, once every external entry has settled.\<close>

lemma settle_externals_logged:
  "(ConsoleLog (''[SW] Could not cache: '' @ u) \<in> set (snd (settle_externals net us st))) =
     (u \<in> set us \<and>
      (case fetch net u of
         Fulfilled r \<Rightarrow> ok r \<and> \<not> put_accepts r
       | Rejected e \<Rightarrow> True))"
proof (induction us arbitrary: st)
  case Nil
  show ?case by simp
next
  case (Cons v us)
  obtain st1 tr1 where s1: "settle_external net v st = (st1, tr1)"
    by (cases "settle_external net v st")
  obtain st2 tr2 where s2: "settle_externals net us st1 = (st2, tr2)"
    by (cases "settle_externals net us st1")
  have t1: "(ConsoleLog (''[SW] Could not cache: '' @ u) \<in> set tr1) =
      (u = v \<and> (case fetch net u of
         Fulfilled r \<Rightarrow> ok r \<and> \<not> put_accepts r
       | Rejected e \<Rightarrow> True))"
    using settle_external_trace [of net v st] s1
    by (auto split: settled.splits)
  have t2: "(ConsoleLog (''[SW] Could not cache: '' @ u) \<in> set tr2) =
      (u \<in> set us \<and> (case fetch net u of
         Fulfilled r \<Rightarrow> ok r \<and> \<not> put_accepts r
       | Rejected e \<Rightarrow> True))"
    using Cons.IH [of st1] s2 by simp
  show ?case
    using t1 t2 by (auto simp: s1 s2)
qed

lemma settle_externals_put:
  "(CachePut CACHE_NAME u \<in> set (snd (settle_externals net us st))) =
     (u \<in> set us \<and> (case fetch net u of Fulfilled r \<Rightarrow> ok r | Rejected e \<Rightarrow> False))"
proof (induction us arbitrary: st)
  case Nil
  show ?case by simp
next
  case (Cons v us)
  obtain st1 tr1 where s1: "settle_external net v st = (st1, tr1)"
    by (cases "settle_external net v st")
  obtain st2 tr2 where s2: "settle_externals net us st1 = (st2, tr2)"
    by (cases "settle_externals net us st1")
  have t1: "(CachePut CACHE_NAME u \<in> set tr1) =
      (u = v \<and> (case fetch net u of Fulfilled r \<Rightarrow> ok r | Rejected e \<Rightarrow> False))"
    using settle_external_trace [of net v st] s1
    by (auto split: settled.splits)
  have t2: "(CachePut CACHE_NAME u \<in> set tr2) =
      (u \<in> set us \<and> (case fetch net u of Fulfilled r \<Rightarrow> ok r | Rejected e \<Rightarrow> False))"
    using Cons.IH [of st1] s2 by simp
  show ?case
    using t1 t2 by (auto simp: s1 s2)
qed

lemma settle_externals_no_skip:
  "SkipWaiting \<notin> set (snd (settle_externals net us st))"
proof (induction us arbitrary: st)
  case Nil
  show ?case by simp
next
  case (Cons v us)
  obtain st1 tr1 where s1: "settle_external net v st = (st1, tr1)"
    by (cases "settle_external net v st")
  obtain st2 tr2 where s2: "settle_externals net us st1 = (st2, tr2)"
    by (cases "settle_externals net us st1")
  have "SkipWaiting \<notin> set tr1"
    using settle_external_trace [of net v st] s1
    by (auto split: settled.splits if_splits)
  moreover have "SkipWaiting \<notin> set tr2"
    using Cons.IH [of st1] s2 by simp
  ultimately show ?case by (simp add: s1 s2)
qed

lemma install_rejected:
  assumes "p \<in> set STATIC_ASSETS"
    and "\<forall>r. fetch net (resolve origin p) = Fulfilled r \<longrightarrow>
           \<not> (ok r \<and> put_accepts r)"
  shows "install origin net st =
     \<lparr>outcome = Rejected AddAllError, storage = caches_open st CACHE_NAME,
      trace = [ConsoleLog ''[SW] Installing service worker...'',
               CacheOpen CACHE_NAME,
               ConsoleLog ''[SW] Caching static assets...'',
               CacheAddAll CACHE_NAME (map (resolve origin) STATIC_ASSETS)]\<rparr>"
proof -
  have "resolve origin p \<in> set (map (resolve origin) STATIC_ASSETS)"
    using assms(1) by simp
  then have "add_all net (caches_open st CACHE_NAME) CACHE_NAME (map (resolve origin) STATIC_ASSETS) =
      (Rejected AddAllError, caches_open st CACHE_NAME)"
    using assms(2) by (rule add_all_fails)
  then show ?thesis
    by (simp add: install_def Let_def)
qed

lemma install_fulfilled:
  assumes "\<forall>p \<in> set STATIC_ASSETS.
      \<exists>r. fetch net (resolve origin p) = Fulfilled r \<and> ok r \<and> put_accepts r"
  shows "\<exists>st2. map_of st2 CACHE_NAME \<noteq> None \<and>
     (\<forall>k. k \<notin> set (map (resolve origin) STATIC_ASSETS) \<longrightarrow>
        entry_of st2 CACHE_NAME k = entry_of st CACHE_NAME k) \<and>
     install origin net st =
       \<lparr>outcome = Fulfilled (), storage = fst (settle_externals net EXTERNAL_ASSETS st2),
        trace = [ConsoleLog ''[SW] Installing service worker...'',
                 CacheOpen CACHE_NAME,
                 ConsoleLog ''[SW] Caching static assets...'',
                 CacheAddAll CACHE_NAME (map (resolve origin) STATIC_ASSETS)] @
                map NetFetch EXTERNAL_ASSETS @
                snd (settle_externals net EXTERNAL_ASSETS st2) @ [SkipWaiting]\<rparr>"
proof -
  have "\<forall>u \<in> set (map (resolve origin) STATIC_ASSETS).
      \<exists>r. fetch net u = Fulfilled r \<and> ok r \<and> put_accepts r"
    using assms by simp
  moreover have "map_of (caches_open st CACHE_NAME) CACHE_NAME \<noteq> None"
    by (simp add: map_of_caches_open)
  ultimately obtain st2 where
    a: "add_all net (caches_open st CACHE_NAME) CACHE_NAME (map (resolve origin) STATIC_ASSETS) =
          (Fulfilled (), st2)" and p: "map_of st2 CACHE_NAME \<noteq> None"
    and e: "\<forall>k. k \<notin> set (map (resolve origin) STATIC_ASSETS) \<longrightarrow>
        entry_of st2 CACHE_NAME k = entry_of (caches_open st CACHE_NAME) CACHE_NAME k"
    using add_all_succeeds by blast
  have "install origin net st =
       \<lparr>outcome = Fulfilled (), storage = fst (settle_externals net EXTERNAL_ASSETS st2),
        trace = [ConsoleLog ''[SW] Installing service worker...'',
                 CacheOpen CACHE_NAME,
                 ConsoleLog ''[SW] Caching static assets...'',
                 CacheAddAll CACHE_NAME (map (resolve origin) STATIC_ASSETS)] @
                map NetFetch EXTERNAL_ASSETS @
                snd (settle_externals net EXTERNAL_ASSETS st2) @ [SkipWaiting]\<rparr>"
    by (simp add: install_def Let_def a split: prod.splits)
  with p e show ?thesis
    by (simp only: entry_of_caches_open) blast
qed

text \<open>
  An install in which \<^verbatim>\<open>addAll\<close> took every static entry: its promise, the lines it
  logs, the puts it calls, and what the cache of the current name holds at the end for
  a key that is not a static entry.
\<close>

lemma install_outcome:
  assumes "\<forall>p \<in> set STATIC_ASSETS.
      \<exists>r. fetch net (resolve origin p) = Fulfilled r \<and> ok r \<and> put_accepts r"
  shows "outcome (install origin net st) = Fulfilled ()"
proof -
  from install_fulfilled [OF assms, of st] obtain st2 where
    i: "install origin net st =
       \<lparr>outcome = Fulfilled (), storage = fst (settle_externals net EXTERNAL_ASSETS st2),
        trace = [ConsoleLog ''[SW] Installing service worker...'',
                 CacheOpen CACHE_NAME,
                 ConsoleLog ''[SW] Caching static assets...'',
                 CacheAddAll CACHE_NAME (map (resolve origin) STATIC_ASSETS)] @
                map NetFetch EXTERNAL_ASSETS @
                snd (settle_externals net EXTERNAL_ASSETS st2) @ [SkipWaiting]\<rparr>"
    by blast
  then show ?thesis by simp
qed

lemma install_logged:
  assumes "\<forall>p \<in> set STATIC_ASSETS.
      \<exists>r. fetch net (resolve origin p) = Fulfilled r \<and> ok r \<and> put_accepts r"
  shows "(ConsoleLog (''[SW] Could not cache: '' @ u) \<in> set (trace (install origin net st))) =
     (u \<in> set EXTERNAL_ASSETS \<and>
      (case fetch net u of
         Fulfilled r \<Rightarrow> ok r \<and> \<not> put_accepts r
       | Rejected e \<Rightarrow> True))"
proof -
  from install_fulfilled [OF assms, of st] obtain st2 where
    i: "install origin net st =
       \<lparr>outcome = Fulfilled (), storage = fst (settle_externals net EXTERNAL_ASSETS st2),
        trace = [ConsoleLog ''[SW] Installing service worker...'',
                 CacheOpen CACHE_NAME,
                 ConsoleLog ''[SW] Caching static assets...'',
                 CacheAddAll CACHE_NAME (map (resolve origin) STATIC_ASSETS)] @
                map NetFetch EXTERNAL_ASSETS @
                snd (settle_externals net EXTERNAL_ASSETS st2) @ [SkipWaiting]\<rparr>"
    by blast
  have "(ConsoleLog (''[SW] Could not cache: '' @ u) \<in> set (trace (install origin net st))) =
      (ConsoleLog (''[SW] Could not cache: '' @ u) \<in>
         set (snd (settle_externals net EXTERNAL_ASSETS st2)))"
    by (auto simp: i)
  then show ?thesis
    by (simp only: settle_externals_logged)
qed

lemma install_put_called:
  assumes "\<forall>p \<in> set STATIC_ASSETS.
      \<exists>r. fetch net (resolve origin p) = Fulfilled r \<and> ok r \<and> put_accepts r"
  shows "(CachePut CACHE_NAME u \<in> set (trace (install origin net st))) =
     (u \<in> set EXTERNAL_ASSETS \<and>
      (case fetch net u of Fulfilled r \<Rightarrow> ok r | Rejected e \<Rightarrow> False))"
proof -
  from install_fulfilled [OF assms, of st] obtain st2 where
    i: "install origin net st =
       \<lparr>outcome = Fulfilled (), storage = fst (settle_externals net EXTERNAL_ASSETS st2),
        trace = [ConsoleLog ''[SW] Installing service worker...'',
                 CacheOpen CACHE_NAME,
                 ConsoleLog ''[SW] Caching static assets...'',
                 CacheAddAll CACHE_NAME (map (resolve origin) STATIC_ASSETS)] @
                map NetFetch EXTERNAL_ASSETS @
                snd (settle_externals net EXTERNAL_ASSETS st2) @ [SkipWaiting]\<rparr>"
    by blast
  have "(CachePut CACHE_NAME u \<in> set (trace (install origin net st))) =
      (CachePut CACHE_NAME u \<in> set (snd (settle_externals net EXTERNAL_ASSETS st2)))"
    by (auto simp: i)
  then show ?thesis
    by (simp only: settle_externals_put)
qed

lemma install_entry:
  assumes "\<forall>p \<in> set STATIC_ASSETS.
      \<exists>r. fetch net (resolve origin p) = Fulfilled r \<and> ok r \<and> put_accepts r"
    and "k \<notin> set (map (resolve origin) STATIC_ASSETS)"
  shows "entry_of (storage (install origin net st)) CACHE_NAME k =
     (case fetch net k of
        Fulfilled r \<Rightarrow>
          if k \<in> set EXTERNAL_ASSETS \<and> ok r \<and> put_accepts r then Some r
          else entry_of st CACHE_NAME k
      | Rejected e \<Rightarrow> entry_of st CACHE_NAME k)"
proof -
  from install_fulfilled [OF assms(1), of st] obtain st2 where
    p: "map_of st2 CACHE_NAME \<noteq> None" and
    e: "\<forall>k. k \<notin> set (map (resolve origin) STATIC_ASSETS) \<longrightarrow>
        entry_of st2 CACHE_NAME k = entry_of st CACHE_NAME k" and
    i: "install origin net st =
       \<lparr>outcome = Fulfilled (), storage = fst (settle_externals net EXTERNAL_ASSETS st2),
        trace = [ConsoleLog ''[SW] Installing service worker...'',
                 CacheOpen CACHE_NAME,
                 ConsoleLog ''[SW] Caching static assets...'',
                 CacheAddAll CACHE_NAME (map (resolve origin) STATIC_ASSETS)] @
                map NetFetch EXTERNAL_ASSETS @
                snd (settle_externals net EXTERNAL_ASSETS st2) @ [SkipWaiting]\<rparr>"
    by blast
  from e assms(2) have "entry_of st2 CACHE_NAME k = entry_of st CACHE_NAME k"
    by blast
  then show ?thesis
    by (simp add: i settle_externals_entry [OF p] split: settled.splits)
qed

section \<open>The fetch handler: requests that are not GET\<close>

text \<open>
  C9. A request whose req_method is not GET is not intercepted: the handler returns before
  any call of \<^verbatim>\<open>respondWith\<close>, so no response is made by the worker and the browser
  handles the request; the storage is left as it was, and the handler causes no effect
  at all, in particular no read or write of a cache and no fetch.
\<close>

theorem non_get_not_intercepted:
  "req_method req \<noteq> ''GET'' \<Longrightarrow>
     outcome (fetch_handler origin net st req) = NotIntercepted \<and>
     storage (fetch_handler origin net st req) = st \<and>
     trace (fetch_handler origin net st req) = []"
  by (simp add: fetch_handler_def)

text \<open>A POST to an API path, with a response for its URL in the cache.\<close>

theorem non_get_not_intercepted_witness:
  "req_method \<lparr>req_method = ''POST'', url = ''https://app.example/api/save'',
           pathname = ''/api/save'', accept = None\<rparr> \<noteq> ''GET'' \<and>
   outcome (fetch_handler ''https://app.example'' []
     [(''anti333-cache-v2'', [(''https://app.example/api/save'', offline_response)])]
     \<lparr>req_method = ''POST'', url = ''https://app.example/api/save'',
      pathname = ''/api/save'', accept = None\<rparr>) = NotIntercepted"
  using non_get_not_intercepted [where
    req = "\<lparr>req_method = ''POST'', url = ''https://app.example/api/save'',
      pathname = ''/api/save'', accept = None\<rparr>"
    and origin = "''https://app.example''" and net = "[]"
    and st = "[(''anti333-cache-v2'', [(''https://app.example/api/save'', offline_response)])]"]
  by simp

section \<open>The fetch handler: API requests\<close>

text \<open>
  C1. For a GET request whose path starts with \<^verbatim>\<open>/api/\<close>: when the fetch rejects, the
  promise given to \<^verbatim>\<open>respondWith\<close> is fulfilled (not rejected) with a response of status
  503 and content type \<^verbatim>\<open>application/json\<close> whose body is the JSON object with the one
  property \<^verbatim>\<open>error\<close>, holding the offline message of the script, whatever the storage
  holds; when the fetch fulfills, its response is the result as it is. In both cases the
  storage is left as it was, and the only effects are the fetch and the answer: no cache
  is read or written. The body is written out byte by byte: an opening brace, the
  quoted name \<^verbatim>\<open>error\<close>, a colon, and in quotes \<^verbatim>\<open>Offline.\<close>, a blank and the UTF-8
  encoding of the code points
  U+041F U+0440 U+043E U+0432 U+0435 U+0440 U+044C U+0442 U+0435 U+0020
  U+043F U+043E U+0434 U+043A U+043B U+044E U+0447 U+0435 U+043D U+0438
  U+0435 U+0020 U+043A U+0020 U+0438 U+043D U+0442 U+0435 U+0440 U+043D
  U+0435 U+0442 U+0443 U+002E
  (the Russian sentence of the script, ending with a full stop), then a closing brace.
\<close>

theorem api_network_only:
  "req_method req = ''GET'' \<Longrightarrow> startsWith (pathname req) ''/api/'' \<Longrightarrow>
     (fetch net (url req) = Rejected NetworkError \<longrightarrow>
        outcome (fetch_handler origin net st req) =
          RespondWith (Fulfilled (Some
            \<lparr>status = 503, rtype = DefaultType, redirected = False,
             headers = [(''Content-Type'', ''application/json'')],
             body =
            ''{'' @
            [CHR 0x22] @
            ''error'' @
            [CHR 0x22] @
            '':'' @
            [CHR 0x22] @
            ''Offline. '' @
            [CHR 0xD0, CHR 0x9F, CHR 0xD1, CHR 0x80, CHR 0xD0, CHR 0xBE, CHR 0xD0, CHR 0xB2,
             CHR 0xD0, CHR 0xB5, CHR 0xD1, CHR 0x80, CHR 0xD1, CHR 0x8C, CHR 0xD1, CHR 0x82,
             CHR 0xD0, CHR 0xB5] @
            '' '' @
            [CHR 0xD0, CHR 0xBF, CHR 0xD0, CHR 0xBE, CHR 0xD0, CHR 0xB4, CHR 0xD0, CHR 0xBA,
             CHR 0xD0, CHR 0xBB, CHR 0xD1, CHR 0x8E, CHR 0xD1, CHR 0x87, CHR 0xD0, CHR 0xB5,
             CHR 0xD0, CHR 0xBD, CHR 0xD0, CHR 0xB8, CHR 0xD0, CHR 0xB5] @
            '' '' @
            [CHR 0xD0, CHR 0xBA] @
            '' '' @
            [CHR 0xD0, CHR 0xB8, CHR 0xD0, CHR 0xBD, CHR 0xD1, CHR 0x82, CHR 0xD0, CHR 0xB5,
             CHR 0xD1, CHR 0x80, CHR 0xD0, CHR 0xBD, CHR 0xD0, CHR 0xB5, CHR 0xD1, CHR 0x82,
             CHR 0xD1, CHR 0x83] @
            ''.'' @
            [CHR 0x22] @
            ''}''\<rparr>))) \<and>
     (\<forall>r. fetch net (url req) = Fulfilled r \<longrightarrow>
        outcome (fetch_handler origin net st req) = RespondWith (Fulfilled (Some r))) \<and>
     storage (fetch_handler origin net st req) = st \<and>
     trace (fetch_handler origin net st req) = [NetFetch (url req), Responded]"
  by (simp add: fetch_handler_def api_branch_def offline_response_def offline_body
      split: settled.splits)

text \<open>The request \<^verbatim>\<open>/api/data\<close> with the network down and a response for it in the cache.\<close>

theorem api_network_only_witness:
  "outcome (fetch_handler ''https://app.example'' []
     [(''anti333-cache-v2'', [(''https://app.example/api/data'',
         \<lparr>status = 200, rtype = Basic, redirected = False, headers = [], body = ''stale''\<rparr>)])]
     \<lparr>req_method = ''GET'', url = ''https://app.example/api/data'',
      pathname = ''/api/data'', accept = Some ''application/json''\<rparr>) =
     RespondWith (Fulfilled (Some
            \<lparr>status = 503, rtype = DefaultType, redirected = False,
             headers = [(''Content-Type'', ''application/json'')],
             body =
            ''{'' @
            [CHR 0x22] @
            ''error'' @
            [CHR 0x22] @
            '':'' @
            [CHR 0x22] @
            ''Offline. '' @
            [CHR 0xD0, CHR 0x9F, CHR 0xD1, CHR 0x80, CHR 0xD0, CHR 0xBE, CHR 0xD0, CHR 0xB2,
             CHR 0xD0, CHR 0xB5, CHR 0xD1, CHR 0x80, CHR 0xD1, CHR 0x8C, CHR 0xD1, CHR 0x82,
             CHR 0xD0, CHR 0xB5] @
            '' '' @
            [CHR 0xD0, CHR 0xBF, CHR 0xD0, CHR 0xBE, CHR 0xD0, CHR 0xB4, CHR 0xD0, CHR 0xBA,
             CHR 0xD0, CHR 0xBB, CHR 0xD1, CHR 0x8E, CHR 0xD1, CHR 0x87, CHR 0xD0, CHR 0xB5,
             CHR 0xD0, CHR 0xBD, CHR 0xD0, CHR 0xB8, CHR 0xD0, CHR 0xB5] @
            '' '' @
            [CHR 0xD0, CHR 0xBA] @
            '' '' @
            [CHR 0xD0, CHR 0xB8, CHR 0xD0, CHR 0xBD, CHR 0xD1, CHR 0x82, CHR 0xD0, CHR 0xB5,
             CHR 0xD1, CHR 0x80, CHR 0xD0, CHR 0xBD, CHR 0xD0, CHR 0xB5, CHR 0xD1, CHR 0x82,
             CHR 0xD1, CHR 0x83] @
            ''.'' @
            [CHR 0x22] @
            ''}''\<rparr>))"
  using api_network_only [where
    req = "\<lparr>req_method = ''GET'', url = ''https://app.example/api/data'',
      pathname = ''/api/data'', accept = Some ''application/json''\<rparr>"
    and net = "[]" and origin = "''https://app.example''"
    and st = "[(''anti333-cache-v2'', [(''https://app.example/api/data'',
         \<lparr>status = 200, rtype = Basic, redirected = False, headers = [], body = ''stale''\<rparr>)])]"]
  by (simp add: startsWith_def fetch_def)

section \<open>The fetch handler: the cache lookup\<close>

text \<open>
  C8, as amended. For a GET request outside the API, the lookup that decides between
  the two strategies is \<^verbatim>\<open>caches.match\<close> on the whole storage: the handler takes the
  cache-hit strategy when any cache of the storage, of the current name or of another,
  holds a response for the request, it takes the cache-miss strategy only when no cache
  holds one, and the response served is that of the first cache, in the order of the
  storage, that holds one.
\<close>

theorem lookup_searches_every_namespace:
  "req_method req = ''GET'' \<Longrightarrow> \<not> startsWith (pathname req) ''/api/'' \<Longrightarrow>
     ((\<exists>c \<in> snd ` set st. map_of c (url req) \<noteq> None) \<longrightarrow>
        (\<exists>cached. caches_match st (url req) = Some cached \<and>
           fetch_handler origin net st req = hit_branch net st req cached \<and>
           outcome (fetch_handler origin net st req) = RespondWith (Fulfilled (Some cached)))) \<and>
     ((\<forall>c \<in> snd ` set st. map_of c (url req) = None) \<longrightarrow>
        fetch_handler origin net st req = miss_branch origin net st req) \<and>
     (\<forall>pre name c post r.
        st = pre @ (name, c) # post \<and> (\<forall>c' \<in> snd ` set pre. map_of c' (url req) = None) \<and>
        map_of c (url req) = Some r \<longrightarrow>
        outcome (fetch_handler origin net st req) = RespondWith (Fulfilled (Some r)))"
proof (intro conjI impI allI)
  assume g: "req_method req = ''GET''" "\<not> startsWith (pathname req) ''/api/''"
  { assume "\<exists>c \<in> snd ` set st. map_of c (url req) \<noteq> None"
    then have "caches_match st (url req) \<noteq> None"
      by (simp add: caches_match_None)
    then obtain cached where c: "caches_match st (url req) = Some cached" by auto
    have "fetch_handler origin net st req = hit_branch net st req cached"
      using g c by (simp add: fetch_handler_def)
    moreover have "outcome (hit_branch net st req cached) = RespondWith (Fulfilled (Some cached))"
      by (simp add: hit_branch_def split: settled.splits)
    ultimately show "\<exists>cached. caches_match st (url req) = Some cached \<and>
           fetch_handler origin net st req = hit_branch net st req cached \<and>
           outcome (fetch_handler origin net st req) = RespondWith (Fulfilled (Some cached))"
      using c by simp }
  { assume "\<forall>c \<in> snd ` set st. map_of c (url req) = None"
    then have "caches_match st (url req) = None"
      by (simp only: caches_match_None)
    then show "fetch_handler origin net st req = miss_branch origin net st req"
      using g by (simp add: fetch_handler_def) }
  { fix pre name c post r
    assume "st = pre @ (name, c) # post \<and> (\<forall>c' \<in> snd ` set pre. map_of c' (url req) = None) \<and>
        map_of c (url req) = Some r"
    then have "caches_match st (url req) = Some r"
      using caches_match_first [of pre "url req" c r name post] by simp
    then show "outcome (fetch_handler origin net st req) = RespondWith (Fulfilled (Some r))"
      using g by (simp add: fetch_handler_def hit_branch_def split: settled.splits) }
qed

text \<open>
  A stylesheet that only a cache made by the page holds, behind the empty current cache,
  with the network down: the response of that cache is served.
\<close>

theorem lookup_searches_every_namespace_witness:
  "outcome (fetch_handler ''https://app.example'' []
     [(''anti333-cache-v2'', []),
      (''page-cache'', [(''https://app.example/site.css'',
         \<lparr>status = 200, rtype = Basic, redirected = False, headers = [], body = ''body {}''\<rparr>)])]
     \<lparr>req_method = ''GET'', url = ''https://app.example/site.css'',
      pathname = ''/site.css'', accept = Some ''text/css''\<rparr>) =
     RespondWith (Fulfilled (Some
       \<lparr>status = 200, rtype = Basic, redirected = False, headers = [], body = ''body {}''\<rparr>))"
proof -
  let ?req = "\<lparr>req_method = ''GET'', url = ''https://app.example/site.css'',
      pathname = ''/site.css'', accept = Some ''text/css''\<rparr>"
  let ?c = "[(''https://app.example/site.css'',
      \<lparr>status = 200, rtype = Basic, redirected = False, headers = [], body = ''body {}''\<rparr>)]"
  let ?st = "[(''anti333-cache-v2'', []), (''page-cache'', ?c)]"
  have g: "req_method ?req = ''GET''" "\<not> startsWith (pathname ?req) ''/api/''"
    by (simp_all add: startsWith_def)
  note t = lookup_searches_every_namespace [OF g, of ?st "''https://app.example''" "[]",
      THEN conjunct2, THEN conjunct2, rule_format]
  show ?thesis
    by (rule t [where pre = "[(''anti333-cache-v2'', [])]" and name = "''page-cache''"
          and post = "[]" and c = ?c]) simp
qed

text \<open>
  The claim as written fails: with a response for the request only in the cache of the
  previous version, and none in the cache of the current name, the lookup is a hit and
  the handler serves the response of the previous version (a miss with the network down
  and this accept header would have given no response).
\<close>

theorem stale_namespace_hit_counterexample:
  "entry_of
     [(''anti333-cache-v1'', [(''https://app.example/app.js'',
         \<lparr>status = 200, rtype = Basic, redirected = False, headers = [], body = ''v1''\<rparr>)]),
      (''anti333-cache-v2'', [])]
     CACHE_NAME ''https://app.example/app.js'' = None \<and>
   outcome (fetch_handler ''https://app.example'' []
     [(''anti333-cache-v1'', [(''https://app.example/app.js'',
         \<lparr>status = 200, rtype = Basic, redirected = False, headers = [], body = ''v1''\<rparr>)]),
      (''anti333-cache-v2'', [])]
     \<lparr>req_method = ''GET'', url = ''https://app.example/app.js'',
      pathname = ''/app.js'', accept = Some ''*/*''\<rparr>) =
     RespondWith (Fulfilled (Some
       \<lparr>status = 200, rtype = Basic, redirected = False, headers = [], body = ''v1''\<rparr>))"
  by (simp add: entry_of_def CACHE_NAME_def fetch_handler_def startsWith_def hit_branch_def
      fetch_def)

section \<open>The fetch handler: a response in the cache\<close>





section \<open>The fetch handler: no response in the cache\<close>

lemma miss_branch_storing:
  "req_method req = ''GET'' \<Longrightarrow> \<not> startsWith (pathname req) ''/api/'' \<Longrightarrow>
   caches_match st (url req) = None \<Longrightarrow> fetch net (url req) = Fulfilled r \<Longrightarrow>
     outcome (fetch_handler origin net st req) = RespondWith (Fulfilled (Some r)) \<and>
     (entry_of (storage (fetch_handler origin net st req)) CACHE_NAME (url req) = Some r) =
       (ok r \<and> rtype r = Basic \<and> put_accepts r) \<and>
     (ok r \<and> rtype r = Basic \<and> put_accepts r \<longrightarrow>
        (\<forall>name key. entry_of (storage (fetch_handler origin net st req)) name key =
           (if name = CACHE_NAME \<and> key = url req then Some r else entry_of st name key))) \<and>
     (\<not> (ok r \<and> rtype r = Basic \<and> put_accepts r) \<longrightarrow>
        (\<forall>name key. entry_of (storage (fetch_handler origin net st req)) name key =
           entry_of st name key)) \<and>
     (CachePut CACHE_NAME (url req) \<in> set (trace (fetch_handler origin net st req))) =
       (ok r \<and> rtype r = Basic) \<and>
     (\<not> (ok r \<and> rtype r = Basic) \<longrightarrow> storage (fetch_handler origin net st req) = st)"
proof -
  assume g: "req_method req = ''GET''" "\<not> startsWith (pathname req) ''/api/''"
    and c: "caches_match st (url req) = None" and f: "fetch net (url req) = Fulfilled r"
  have h: "fetch_handler origin net st req = miss_branch origin net st req"
    using g c by (simp add: fetch_handler_def)
  have n: "entry_of st CACHE_NAME (url req) = None"
    using c by (rule caches_match_entry_None)
  have a1: "outcome (miss_branch origin net st req) = RespondWith (Fulfilled (Some r))"
    using f by (simp add: miss_branch_def)
  have a3: "ok r \<and> rtype r = Basic \<and> put_accepts r \<longrightarrow>
        (\<forall>name key. entry_of (storage (miss_branch origin net st req)) name key =
           (if name = CACHE_NAME \<and> key = url req then Some r else entry_of st name key))"
    using f by (simp add: miss_branch_def snd_cache_put entry_of_open_store)
  have a4: "\<not> (ok r \<and> rtype r = Basic \<and> put_accepts r) \<longrightarrow>
        (\<forall>name key. entry_of (storage (miss_branch origin net st req)) name key =
           entry_of st name key)"
    using f by (auto simp: miss_branch_def snd_cache_put entry_of_caches_open)
  have a2: "(entry_of (storage (miss_branch origin net st req)) CACHE_NAME (url req) = Some r) =
       (ok r \<and> rtype r = Basic \<and> put_accepts r)"
    using a3 a4 n by auto
  have a5: "(CachePut CACHE_NAME (url req) \<in> set (trace (miss_branch origin net st req))) =
       (ok r \<and> rtype r = Basic)"
    using f by (simp add: miss_branch_def)
  have a6: "\<not> (ok r \<and> rtype r = Basic) \<longrightarrow> storage (miss_branch origin net st req) = st"
    using f by (simp add: miss_branch_def)
  from a1 a2 a3 a4 a5 a6 show ?thesis
    unfolding h by (intro conjI)
qed

text \<open>
  C5, as amended. For a GET request outside the API for which the lookup finds nothing
  and whose fetch fulfills: the response is the result, and afterwards the cache of the
  current name holds a copy under the key of the request if and only if the response is
  \<^verbatim>\<open>ok\<close> (status 200 to 299), is of type \<^verbatim>\<open>basic\<close>, redirected or not, and is one that
  \<^verbatim>\<open>cache.put\<close> accepts (a status other than 206, no \<^verbatim>\<open>Vary\<close> header with \<^verbatim>\<open>*\<close>). When
  the three hold, every other entry of the storage is as before; otherwise every entry of the storage is as before, and for a response that is
  not \<^verbatim>\<open>ok\<close> or not of type \<^verbatim>\<open>basic\<close>, so for every opaque response, the storage is left
  as it was and no put is called.
\<close>

theorem cold_fetch_stores_ok_basic:
  "req_method req = ''GET'' \<Longrightarrow> \<not> startsWith (pathname req) ''/api/'' \<Longrightarrow>
   caches_match st (url req) = None \<Longrightarrow> fetch net (url req) = Fulfilled r \<Longrightarrow>
     outcome (fetch_handler origin net st req) = RespondWith (Fulfilled (Some r)) \<and>
     (entry_of (storage (fetch_handler origin net st req)) CACHE_NAME (url req) = Some r) =
       (ok r \<and> rtype r = Basic \<and> (status r \<noteq> 206 \<and> \<not> vary_star r)) \<and>
     (ok r \<and> rtype r = Basic \<and> (status r \<noteq> 206 \<and> \<not> vary_star r) \<longrightarrow>
        (\<forall>name key. entry_of (storage (fetch_handler origin net st req)) name key =
           (if name = CACHE_NAME \<and> key = url req then Some r else entry_of st name key))) \<and>
     (\<not> (ok r \<and> rtype r = Basic \<and> (status r \<noteq> 206 \<and> \<not> vary_star r)) \<longrightarrow>
        (\<forall>name key. entry_of (storage (fetch_handler origin net st req)) name key =
           entry_of st name key)) \<and>
     (CachePut CACHE_NAME (url req) \<in> set (trace (fetch_handler origin net st req))) =
       (ok r \<and> rtype r = Basic) \<and>
     (\<not> (ok r \<and> rtype r = Basic) \<longrightarrow> storage (fetch_handler origin net st req) = st)"
  by (rule miss_branch_storing [unfolded put_accepts_def])

text \<open>A page that is not in the cache, answered by the network with status 200.\<close>

theorem cold_fetch_stores_ok_basic_witness:
  "outcome (fetch_handler ''https://app.example''
     [(''https://app.example/about.html'',
         \<lparr>status = 200, rtype = Basic, redirected = False, headers = [], body = ''about''\<rparr>)] []
     \<lparr>req_method = ''GET'', url = ''https://app.example/about.html'',
      pathname = ''/about.html'', accept = Some ''text/html''\<rparr>) =
     RespondWith (Fulfilled (Some
       \<lparr>status = 200, rtype = Basic, redirected = False, headers = [], body = ''about''\<rparr>)) \<and>
   entry_of (storage (fetch_handler ''https://app.example''
     [(''https://app.example/about.html'',
         \<lparr>status = 200, rtype = Basic, redirected = False, headers = [], body = ''about''\<rparr>)] []
     \<lparr>req_method = ''GET'', url = ''https://app.example/about.html'',
      pathname = ''/about.html'', accept = Some ''text/html''\<rparr>))
     ''anti333-cache-v2'' ''https://app.example/about.html'' =
     Some \<lparr>status = 200, rtype = Basic, redirected = False, headers = [], body = ''about''\<rparr>"
  using cold_fetch_stores_ok_basic [where
    req = "\<lparr>req_method = ''GET'', url = ''https://app.example/about.html'',
      pathname = ''/about.html'', accept = Some ''text/html''\<rparr>"
    and st = "[]" and origin = "''https://app.example''"
    and r = "\<lparr>status = 200, rtype = Basic, redirected = False, headers = [], body = ''about''\<rparr>"
    and net = "[(''https://app.example/about.html'',
         \<lparr>status = 200, rtype = Basic, redirected = False, headers = [], body = ''about''\<rparr>)]"]
  by (simp add: startsWith_def fetch_def ok_def CACHE_NAME_def put_accepts_def
      vary_star_def)

text \<open>
  The claim as written fails in both directions. A response of type \<^verbatim>\<open>basic\<close> with
  status 200 that is the end of a followed redirection is stored, so a stored response
  need not be one that was not redirected. A response of type \<^verbatim>\<open>basic\<close> that was not
  redirected is returned and not stored when it has the header \<^verbatim>\<open>Vary: *\<close> or the status
  206, which is \<^verbatim>\<open>ok\<close>, since the put refuses both, and when its status is 404, for which
  the fetch fulfills and no put is called.
\<close>

theorem cold_fetch_store_counterexample:
  "entry_of (storage (fetch_handler ''https://app.example''
     [(''https://app.example/docs'',
         \<lparr>status = 200, rtype = Basic, redirected = True, headers = [], body = ''docs''\<rparr>)]
     [(''anti333-cache-v2'', [])]
     \<lparr>req_method = ''GET'', url = ''https://app.example/docs'',
      pathname = ''/docs'', accept = Some ''text/html''\<rparr>))
     ''anti333-cache-v2'' ''https://app.example/docs'' =
     Some \<lparr>status = 200, rtype = Basic, redirected = True, headers = [], body = ''docs''\<rparr> \<and>
   storage (fetch_handler ''https://app.example''
     [(''https://app.example/feed.json'',
         \<lparr>status = 200, rtype = Basic, redirected = False,
          headers = [(''Vary'', ''*'')], body = ''feed''\<rparr>)]
     [(''anti333-cache-v2'', [])]
     \<lparr>req_method = ''GET'', url = ''https://app.example/feed.json'',
      pathname = ''/feed.json'', accept = Some ''application/json''\<rparr>) =
     [(''anti333-cache-v2'', [])] \<and>
   ok \<lparr>status = 206, rtype = Basic, redirected = False, headers = [], body = ''part''\<rparr> \<and>
   outcome (fetch_handler ''https://app.example''
     [(''https://app.example/video.mp4'',
         \<lparr>status = 206, rtype = Basic, redirected = False, headers = [], body = ''part''\<rparr>)]
     [(''anti333-cache-v2'', [])]
     \<lparr>req_method = ''GET'', url = ''https://app.example/video.mp4'',
      pathname = ''/video.mp4'', accept = Some ''*/*''\<rparr>) =
     RespondWith (Fulfilled (Some
       \<lparr>status = 206, rtype = Basic, redirected = False, headers = [], body = ''part''\<rparr>)) \<and>
   storage (fetch_handler ''https://app.example''
     [(''https://app.example/video.mp4'',
         \<lparr>status = 206, rtype = Basic, redirected = False, headers = [], body = ''part''\<rparr>)]
     [(''anti333-cache-v2'', [])]
     \<lparr>req_method = ''GET'', url = ''https://app.example/video.mp4'',
      pathname = ''/video.mp4'', accept = Some ''*/*''\<rparr>) =
     [(''anti333-cache-v2'', [])] \<and>
   outcome (fetch_handler ''https://app.example''
     [(''https://app.example/missing.png'',
         \<lparr>status = 404, rtype = Basic, redirected = False, headers = [], body = ''Not Found''\<rparr>)]
     [(''anti333-cache-v2'', [])]
     \<lparr>req_method = ''GET'', url = ''https://app.example/missing.png'',
      pathname = ''/missing.png'', accept = Some ''image/png''\<rparr>) =
     RespondWith (Fulfilled (Some
       \<lparr>status = 404, rtype = Basic, redirected = False, headers = [], body = ''Not Found''\<rparr>)) \<and>
   storage (fetch_handler ''https://app.example''
     [(''https://app.example/missing.png'',
         \<lparr>status = 404, rtype = Basic, redirected = False, headers = [], body = ''Not Found''\<rparr>)]
     [(''anti333-cache-v2'', [])]
     \<lparr>req_method = ''GET'', url = ''https://app.example/missing.png'',
      pathname = ''/missing.png'', accept = Some ''image/png''\<rparr>) =
     [(''anti333-cache-v2'', [])]"
  by (simp add: ok_def entry_of_def fetch_handler_def startsWith_def miss_branch_def fetch_def
      cache_put_def put_accepts_def vary_star_def lower_def trim_def is_blank_def
      cache_store_def caches_open_def CACHE_NAME_def)

text \<open>
  C4, as amended. For a GET request outside the API for which the lookup finds nothing,
  whose fetch rejects and which has an accept header: when the value of the header
  includes \<^verbatim>\<open>text/html\<close>, the promise given to \<^verbatim>\<open>respondWith\<close> is fulfilled with the
  result of \<^verbatim>\<open>caches.match('/')\<close>, the cached entry of the root document; otherwise the
  \<^verbatim>\<open>catch\<close> callback returns nothing, so the promise is fulfilled with \<^verbatim>\<open>undefined\<close>: no
  substitute response is made and the rejection of the fetch is not passed on. The
  storage is left as it was.
\<close>

theorem cold_fetch_failure_fallback:
  "req_method req = ''GET'' \<Longrightarrow> \<not> startsWith (pathname req) ''/api/'' \<Longrightarrow>
   caches_match st (url req) = None \<Longrightarrow> fetch net (url req) = Rejected NetworkError \<Longrightarrow>
   accept req = Some a \<Longrightarrow>
     (includes_str a ''text/html'' \<longrightarrow>
        outcome (fetch_handler origin net st req) =
          RespondWith (Fulfilled (caches_match st (resolve origin ''/'')))) \<and>
     (\<not> includes_str a ''text/html'' \<longrightarrow>
        outcome (fetch_handler origin net st req) = RespondWith (Fulfilled None)) \<and>
     storage (fetch_handler origin net st req) = st"
  by (simp add: fetch_handler_def miss_branch_def)

text \<open>
  The request \<^verbatim>\<open>/new-page.html\<close>, not in the cache, with the network down and an accept
  header of a navigation: the cached root document is the answer.
\<close>

theorem cold_fetch_failure_fallback_witness:
  "includes_str ''text/html,application/xhtml+xml'' ''text/html'' \<and>
   outcome (fetch_handler ''https://app.example'' []
     [(''anti333-cache-v2'', [(''https://app.example/'',
         \<lparr>status = 200, rtype = Basic, redirected = False, headers = [], body = ''root''\<rparr>)])]
     \<lparr>req_method = ''GET'', url = ''https://app.example/new-page.html'',
      pathname = ''/new-page.html'', accept = Some ''text/html,application/xhtml+xml''\<rparr>) =
     RespondWith (Fulfilled (Some
       \<lparr>status = 200, rtype = Basic, redirected = False, headers = [], body = ''root''\<rparr>))"
  using cold_fetch_failure_fallback [where
    req = "\<lparr>req_method = ''GET'', url = ''https://app.example/new-page.html'',
      pathname = ''/new-page.html'', accept = Some ''text/html,application/xhtml+xml''\<rparr>"
    and net = "[]" and origin = "''https://app.example''"
    and a = "''text/html,application/xhtml+xml''"
    and st = "[(''anti333-cache-v2'', [(''https://app.example/'',
         \<lparr>status = 200, rtype = Basic, redirected = False, headers = [], body = ''root''\<rparr>)])]"]
  by (simp add: startsWith_def fetch_def resolve_def)

text \<open>
  The claim as written fails: for an image that is not in the cache, with the network
  down, the promise is fulfilled with \<^verbatim>\<open>undefined\<close>; it is not rejected with the failure
  of the fetch.
\<close>

theorem cold_fetch_failure_counterexample:
  "fetch [] ''https://app.example/logo.png'' = Rejected NetworkError \<and>
   outcome (fetch_handler ''https://app.example'' [] [(''anti333-cache-v2'', [])]
     \<lparr>req_method = ''GET'', url = ''https://app.example/logo.png'',
      pathname = ''/logo.png'', accept = Some ''image/png''\<rparr>) =
     RespondWith (Fulfilled None) \<and>
   outcome (fetch_handler ''https://app.example'' [] [(''anti333-cache-v2'', [])]
     \<lparr>req_method = ''GET'', url = ''https://app.example/logo.png'',
      pathname = ''/logo.png'', accept = Some ''image/png''\<rparr>) \<noteq>
     RespondWith (Rejected NetworkError)"
  by (simp add: fetch_handler_def startsWith_def miss_branch_def fetch_def)

text \<open>
  C10. For a GET request outside the API for which the lookup finds nothing, whose
  fetch rejects and which has no accept header: \<^verbatim>\<open>headers.get('accept')\<close> is \<^verbatim>\<open>null\<close>, the
  call of \<^verbatim>\<open>includes\<close> on it throws inside the \<^verbatim>\<open>catch\<close> callback, and the promise given
  to \<^verbatim>\<open>respondWith\<close> rejects with that type error: it is neither fulfilled with a
  fallback response or with anything else, nor rejected with the failure of the fetch.
\<close>

theorem missing_accept_header_type_error:
  "req_method req = ''GET'' \<Longrightarrow> \<not> startsWith (pathname req) ''/api/'' \<Longrightarrow>
   caches_match st (url req) = None \<Longrightarrow> fetch net (url req) = Rejected NetworkError \<Longrightarrow>
   accept req = None \<Longrightarrow>
     outcome (fetch_handler origin net st req) = RespondWith (Rejected NullTypeError) \<and>
     outcome (fetch_handler origin net st req) \<noteq> RespondWith (Rejected NetworkError) \<and>
     (\<forall>x. outcome (fetch_handler origin net st req) \<noteq> RespondWith (Fulfilled x))"
  by (simp add: fetch_handler_def miss_branch_def)

text \<open>A request without accept header, with the root document in the cache.\<close>

theorem missing_accept_header_type_error_witness:
  "accept \<lparr>req_method = ''GET'', url = ''https://app.example/data.bin'',
      pathname = ''/data.bin'', accept = None\<rparr> = None \<and>
   outcome (fetch_handler ''https://app.example'' []
     [(''anti333-cache-v2'', [(''https://app.example/'',
         \<lparr>status = 200, rtype = Basic, redirected = False, headers = [], body = ''root''\<rparr>)])]
     \<lparr>req_method = ''GET'', url = ''https://app.example/data.bin'',
      pathname = ''/data.bin'', accept = None\<rparr>) =
     RespondWith (Rejected NullTypeError)"
  using missing_accept_header_type_error [where
    req = "\<lparr>req_method = ''GET'', url = ''https://app.example/data.bin'',
      pathname = ''/data.bin'', accept = None\<rparr>"
    and net = "[]" and origin = "''https://app.example''"
    and st = "[(''anti333-cache-v2'', [(''https://app.example/'',
         \<lparr>status = 200, rtype = Basic, redirected = False, headers = [], body = ''root''\<rparr>)])]"]
  by (simp add: startsWith_def fetch_def)

section \<open>The install handler: static entries\<close>

lemma install_static_failure:
  "((\<exists>p \<in> set STATIC_ASSETS.
       \<forall>r. fetch net (resolve origin p) = Fulfilled r \<longrightarrow>
           \<not> (ok r \<and> put_accepts r)) \<longrightarrow>
      outcome (install origin net st) = Rejected AddAllError \<and>
      storage (install origin net st) = caches_open st CACHE_NAME \<and>
      (\<forall>name key. entry_of (storage (install origin net st)) name key = entry_of st name key) \<and>
      (\<forall>u. NetFetch u \<notin> set (trace (install origin net st))) \<and>
      SkipWaiting \<notin> set (trace (install origin net st))) \<and>
   ((\<exists>u. NetFetch u \<in> set (trace (install origin net st))) \<longrightarrow>
      (\<forall>p \<in> set STATIC_ASSETS.
         \<exists>r. fetch net (resolve origin p) = Fulfilled r \<and> ok r \<and>
           put_accepts r)) \<and>
   take 4 (trace (install origin net st)) =
     [ConsoleLog ''[SW] Installing service worker...'',
      CacheOpen CACHE_NAME,
      ConsoleLog ''[SW] Caching static assets...'',
      CacheAddAll CACHE_NAME (map (resolve origin) STATIC_ASSETS)]"
proof -
  have fail: "(\<exists>p \<in> set STATIC_ASSETS.
       \<forall>r. fetch net (resolve origin p) = Fulfilled r \<longrightarrow>
           \<not> (ok r \<and> put_accepts r)) \<longrightarrow>
     install origin net st =
     \<lparr>outcome = Rejected AddAllError, storage = caches_open st CACHE_NAME,
      trace = [ConsoleLog ''[SW] Installing service worker...'',
               CacheOpen CACHE_NAME,
               ConsoleLog ''[SW] Caching static assets...'',
               CacheAddAll CACHE_NAME (map (resolve origin) STATIC_ASSETS)]\<rparr>"
    using install_rejected by blast
  have a: "(\<exists>p \<in> set STATIC_ASSETS.
       \<forall>r. fetch net (resolve origin p) = Fulfilled r \<longrightarrow>
           \<not> (ok r \<and> put_accepts r)) \<longrightarrow>
      outcome (install origin net st) = Rejected AddAllError \<and>
      storage (install origin net st) = caches_open st CACHE_NAME \<and>
      (\<forall>name key. entry_of (storage (install origin net st)) name key = entry_of st name key) \<and>
      (\<forall>u. NetFetch u \<notin> set (trace (install origin net st))) \<and>
      SkipWaiting \<notin> set (trace (install origin net st))"
    using fail by (simp add: entry_of_caches_open)
  have b: "(\<exists>u. NetFetch u \<in> set (trace (install origin net st))) \<longrightarrow>
      (\<forall>p \<in> set STATIC_ASSETS.
         \<exists>r. fetch net (resolve origin p) = Fulfilled r \<and> ok r \<and>
           put_accepts r)"
    using a by blast
  have c: "take 4 (trace (install origin net st)) =
     [ConsoleLog ''[SW] Installing service worker...'',
      CacheOpen CACHE_NAME,
      ConsoleLog ''[SW] Caching static assets...'',
      CacheAddAll CACHE_NAME (map (resolve origin) STATIC_ASSETS)]"
    by (simp add: install_def Let_def split: prod.splits settled.splits)
  from a b c show ?thesis by blast
qed

text \<open>
  C3. Install is all or nothing over \<^verbatim>\<open>STATIC_ASSETS\<close>. When the fetch of one static
  entry rejects, or gives a response that is not \<^verbatim>\<open>ok\<close> or that the cache refuses to
  store, the promise of the install rejects, the storage is what opening the current
  cache left (the cache exists, and every cache holds for every key what it held before,
  so no static entry was added), no external entry is fetched and \<^verbatim>\<open>skipWaiting\<close> is not
  called. Conversely an external entry is fetched only when every static entry gave an
  \<^verbatim>\<open>ok\<close> response that the cache takes, and in every run the first four effects are
  the two log lines, the opening of the cache and \<^verbatim>\<open>addAll\<close>, so every fetch of an
  external entry comes after \<^verbatim>\<open>addAll\<close>.
\<close>

theorem install_static_all_or_nothing:
  "((\<exists>p \<in> set STATIC_ASSETS.
       \<forall>r. fetch net (resolve origin p) = Fulfilled r \<longrightarrow>
           \<not> (ok r \<and> (status r \<noteq> 206 \<and> \<not> vary_star r))) \<longrightarrow>
      outcome (install origin net st) = Rejected AddAllError \<and>
      storage (install origin net st) = caches_open st CACHE_NAME \<and>
      (\<forall>name key. entry_of (storage (install origin net st)) name key = entry_of st name key) \<and>
      (\<forall>u. NetFetch u \<notin> set (trace (install origin net st))) \<and>
      SkipWaiting \<notin> set (trace (install origin net st))) \<and>
   ((\<exists>u. NetFetch u \<in> set (trace (install origin net st))) \<longrightarrow>
      (\<forall>p \<in> set STATIC_ASSETS.
         \<exists>r. fetch net (resolve origin p) = Fulfilled r \<and> ok r \<and>
           (status r \<noteq> 206 \<and> \<not> vary_star r))) \<and>
   take 4 (trace (install origin net st)) =
     [ConsoleLog ''[SW] Installing service worker...'',
      CacheOpen CACHE_NAME,
      ConsoleLog ''[SW] Caching static assets...'',
      CacheAddAll CACHE_NAME (map (resolve origin) STATIC_ASSETS)]"
  by (rule install_static_failure [unfolded put_accepts_def])

text \<open>
  An install in which \<^verbatim>\<open>/manifest.json\<close> gives status 404 and every other static entry
  status 200: the install rejects and the cache of the current name is empty.
\<close>

theorem install_static_all_or_nothing_witness:
  "fetch ((''https://app.example/manifest.json'',
            \<lparr>status = 404, rtype = Basic, redirected = False, headers = [], body = ''Not Found''\<rparr>) #
          map (\<lambda>p. (''https://app.example'' @ p,
            \<lparr>status = 200, rtype = Basic, redirected = False, headers = [], body = ''asset''\<rparr>)) STATIC_ASSETS)
     (resolve ''https://app.example'' ''/manifest.json'') =
     Fulfilled \<lparr>status = 404, rtype = Basic, redirected = False, headers = [], body = ''Not Found''\<rparr> \<and>
   outcome (install ''https://app.example''
     ((''https://app.example/manifest.json'',
            \<lparr>status = 404, rtype = Basic, redirected = False, headers = [], body = ''Not Found''\<rparr>) #
          map (\<lambda>p. (''https://app.example'' @ p,
            \<lparr>status = 200, rtype = Basic, redirected = False, headers = [], body = ''asset''\<rparr>)) STATIC_ASSETS) []) =
     Rejected AddAllError \<and>
   storage (install ''https://app.example''
     ((''https://app.example/manifest.json'',
            \<lparr>status = 404, rtype = Basic, redirected = False, headers = [], body = ''Not Found''\<rparr>) #
          map (\<lambda>p. (''https://app.example'' @ p,
            \<lparr>status = 200, rtype = Basic, redirected = False, headers = [], body = ''asset''\<rparr>)) STATIC_ASSETS) []) =
     [(''anti333-cache-v2'', [])]"
proof -
  let ?net = "(''https://app.example/manifest.json'',
            \<lparr>status = 404, rtype = Basic, redirected = False, headers = [], body = ''Not Found''\<rparr>) #
          map (\<lambda>p. (''https://app.example'' @ p,
            \<lparr>status = 200, rtype = Basic, redirected = False, headers = [], body = ''asset''\<rparr>)) STATIC_ASSETS"
  have f: "fetch ?net (resolve ''https://app.example'' ''/manifest.json'') =
     Fulfilled \<lparr>status = 404, rtype = Basic, redirected = False, headers = [], body = ''Not Found''\<rparr>"
    by (simp add: fetch_def resolve_def)
  have "''/manifest.json'' \<in> set STATIC_ASSETS"
    by (simp add: STATIC_ASSETS_def)
  with f have "\<exists>p \<in> set STATIC_ASSETS.
      \<forall>r. fetch ?net (resolve ''https://app.example'' p) = Fulfilled r \<longrightarrow>
        \<not> (ok r \<and> (status r \<noteq> 206 \<and> \<not> vary_star r))"
    by (intro bexI [of _ "''/manifest.json''"]) (simp_all add: ok_def)
  with install_static_all_or_nothing [of ?net "''https://app.example''" "[]"] f
  show ?thesis by (simp add: caches_open_def CACHE_NAME_def)
qed

section \<open>The install handler: external entries\<close>

lemma install_external_settling:
  "\<forall>p \<in> set STATIC_ASSETS.
     \<exists>r. fetch net (resolve origin p) = Fulfilled r \<and> ok r \<and> put_accepts r \<Longrightarrow>
     outcome (install origin net st) = Fulfilled () \<and>
     (\<forall>u \<in> set EXTERNAL_ASSETS. \<forall>r. fetch net u = Fulfilled r \<and> ok r \<and> put_accepts r \<longrightarrow>
        entry_of (storage (install origin net st)) CACHE_NAME u = Some r) \<and>
     (\<forall>u \<in> set EXTERNAL_ASSETS. fetch net u = Rejected NetworkError \<longrightarrow>
        ConsoleLog (''[SW] Could not cache: '' @ u) \<in> set (trace (install origin net st))) \<and>
     (\<forall>u \<in> set EXTERNAL_ASSETS. \<forall>r. fetch net u = Fulfilled r \<and> ok r \<and> \<not> put_accepts r \<longrightarrow>
        ConsoleLog (''[SW] Could not cache: '' @ u) \<in> set (trace (install origin net st))) \<and>
     (\<forall>u \<in> set EXTERNAL_ASSETS. \<forall>r. fetch net u = Fulfilled r \<and> \<not> ok r \<longrightarrow>
        CachePut CACHE_NAME u \<notin> set (trace (install origin net st)) \<and>
        ConsoleLog (''[SW] Could not cache: '' @ u) \<notin> set (trace (install origin net st))) \<and>
     (\<forall>u \<in> set EXTERNAL_ASSETS. NetFetch u \<in> set (trace (install origin net st))) \<and>
     last (trace (install origin net st)) = SkipWaiting \<and>
     SkipWaiting \<notin> set (butlast (trace (install origin net st)))"
proof -
  assume h: "\<forall>p \<in> set STATIC_ASSETS.
     \<exists>r. fetch net (resolve origin p) = Fulfilled r \<and> ok r \<and> put_accepts r"
  from install_fulfilled [OF h, of st] obtain st2 where p: "map_of st2 CACHE_NAME \<noteq> None" and
    i: "install origin net st =
       \<lparr>outcome = Fulfilled (), storage = fst (settle_externals net EXTERNAL_ASSETS st2),
        trace = [ConsoleLog ''[SW] Installing service worker...'',
                 CacheOpen CACHE_NAME,
                 ConsoleLog ''[SW] Caching static assets...'',
                 CacheAddAll CACHE_NAME (map (resolve origin) STATIC_ASSETS)] @
                map NetFetch EXTERNAL_ASSETS @
                snd (settle_externals net EXTERNAL_ASSETS st2) @ [SkipWaiting]\<rparr>"
    by blast
  note lg = install_logged [OF h, of _ st]
  note pt = install_put_called [OF h, of _ st]
  have b1: "\<forall>u \<in> set EXTERNAL_ASSETS. \<forall>r. fetch net u = Fulfilled r \<and> ok r \<and> put_accepts r \<longrightarrow>
        entry_of (storage (install origin net st)) CACHE_NAME u = Some r"
    by (simp add: i settle_externals_entry [OF p])
  have b2: "\<forall>u \<in> set EXTERNAL_ASSETS. fetch net u = Rejected NetworkError \<longrightarrow>
        ConsoleLog (''[SW] Could not cache: '' @ u) \<in> set (trace (install origin net st))"
    unfolding lg by simp
  have b3: "\<forall>u \<in> set EXTERNAL_ASSETS. \<forall>r. fetch net u = Fulfilled r \<and> ok r \<and> \<not> put_accepts r \<longrightarrow>
        ConsoleLog (''[SW] Could not cache: '' @ u) \<in> set (trace (install origin net st))"
    unfolding lg by simp
  have b4: "\<forall>u \<in> set EXTERNAL_ASSETS. \<forall>r. fetch net u = Fulfilled r \<and> \<not> ok r \<longrightarrow>
        CachePut CACHE_NAME u \<notin> set (trace (install origin net st)) \<and>
        ConsoleLog (''[SW] Could not cache: '' @ u) \<notin> set (trace (install origin net st))"
    unfolding lg pt by simp
  have b5: "\<forall>u \<in> set EXTERNAL_ASSETS. NetFetch u \<in> set (trace (install origin net st))"
    by (simp add: i)
  have b6: "SkipWaiting \<notin> set (butlast (trace (install origin net st)))"
    using settle_externals_no_skip [of net EXTERNAL_ASSETS st2]
    by (auto simp: i butlast_append)
  have b7: "last (trace (install origin net st)) = SkipWaiting"
    by (simp add: i)
  have b0: "outcome (install origin net st) = Fulfilled ()"
    by (simp add: i)
  from b0 b1 b2 b3 b4 b5 b7 b6 show ?thesis
    by (intro conjI)
qed

text \<open>
  C7, as amended. When \<^verbatim>\<open>addAll\<close> took every static entry, the promise of the install is
  fulfilled whatever the external entries do. Every entry of \<^verbatim>\<open>EXTERNAL_ASSETS\<close> is
  fetched, and each entry is settled on its own, whatever happened to the others:
  \<^item> if its fetch gives an \<^verbatim>\<open>ok\<close> response that \<^verbatim>\<open>cache.put\<close> accepts, the cache of the
    current name holds that response under the URL of the entry at the end;
  \<^item> if its fetch rejects, or gives an \<^verbatim>\<open>ok\<close> response that \<^verbatim>\<open>cache.put\<close> refuses, the
    rejection is caught and the line \<^verbatim>\<open>[SW] Could not cache:\<close> with its URL is logged;
  \<^item> if its fetch gives a response that is not \<^verbatim>\<open>ok\<close>, the entry is skipped in
    silence: no put is called for it and no line is logged for it.
  \<^verbatim>\<open>skipWaiting\<close> is the last effect of the install and occurs once, after every attempt
  has settled.
\<close>

theorem install_external_independent:
  "\<forall>p \<in> set STATIC_ASSETS.
     \<exists>r. fetch net (resolve origin p) = Fulfilled r \<and> ok r \<and> (status r \<noteq> 206 \<and> \<not> vary_star r) \<Longrightarrow>
     outcome (install origin net st) = Fulfilled () \<and>
     (\<forall>u \<in> set EXTERNAL_ASSETS. \<forall>r. fetch net u = Fulfilled r \<and> ok r \<and> (status r \<noteq> 206 \<and> \<not> vary_star r) \<longrightarrow>
        entry_of (storage (install origin net st)) CACHE_NAME u = Some r) \<and>
     (\<forall>u \<in> set EXTERNAL_ASSETS. fetch net u = Rejected NetworkError \<longrightarrow>
        ConsoleLog (''[SW] Could not cache: '' @ u) \<in> set (trace (install origin net st))) \<and>
     (\<forall>u \<in> set EXTERNAL_ASSETS. \<forall>r. fetch net u = Fulfilled r \<and> ok r \<and> \<not> (status r \<noteq> 206 \<and> \<not> vary_star r) \<longrightarrow>
        ConsoleLog (''[SW] Could not cache: '' @ u) \<in> set (trace (install origin net st))) \<and>
     (\<forall>u \<in> set EXTERNAL_ASSETS. \<forall>r. fetch net u = Fulfilled r \<and> \<not> ok r \<longrightarrow>
        CachePut CACHE_NAME u \<notin> set (trace (install origin net st)) \<and>
        ConsoleLog (''[SW] Could not cache: '' @ u) \<notin> set (trace (install origin net st))) \<and>
     (\<forall>u \<in> set EXTERNAL_ASSETS. NetFetch u \<in> set (trace (install origin net st))) \<and>
     last (trace (install origin net st)) = SkipWaiting \<and>
     SkipWaiting \<notin> set (butlast (trace (install origin net st)))"
  by (rule install_external_settling [unfolded put_accepts_def])

text \<open>
  An install in which every static entry gives status 200, the second external entry
  gives status 200, the third gives status 404, the fourth gives status 200 with the
  header \<^verbatim>\<open>Vary: *\<close> and every other external entry is unreachable: the install is
  fulfilled, the second entry is in the cache, the failures of the first and of the
  fourth are logged and nothing is logged for the third.
\<close>

theorem install_external_independent_witness:
  "outcome (install ''https://app.example''
     (map (\<lambda>p. (''https://app.example'' @ p,
            \<lparr>status = 200, rtype = Basic, redirected = False, headers = [], body = ''asset''\<rparr>))
        STATIC_ASSETS @
      [(''https://unpkg.com/docx@8.5.0/build/index.umd.js'',
            \<lparr>status = 200, rtype = Cors, redirected = False, headers = [], body = ''docx''\<rparr>),
       (''https://cdnjs.cloudflare.com/ajax/libs/FileSaver.js/2.0.5/FileSaver.min.js'',
            \<lparr>status = 404, rtype = Cors, redirected = False, headers = [], body = ''gone''\<rparr>),
       (''https://cdnjs.cloudflare.com/ajax/libs/pdf.js/3.11.174/pdf.min.js'',
            \<lparr>status = 200, rtype = Cors, redirected = False,
             headers = [(''Vary'', ''*'')], body = ''pdf''\<rparr>)]) []) = Fulfilled () \<and>
   entry_of (storage (install ''https://app.example''
     (map (\<lambda>p. (''https://app.example'' @ p,
            \<lparr>status = 200, rtype = Basic, redirected = False, headers = [], body = ''asset''\<rparr>))
        STATIC_ASSETS @
      [(''https://unpkg.com/docx@8.5.0/build/index.umd.js'',
            \<lparr>status = 200, rtype = Cors, redirected = False, headers = [], body = ''docx''\<rparr>),
       (''https://cdnjs.cloudflare.com/ajax/libs/FileSaver.js/2.0.5/FileSaver.min.js'',
            \<lparr>status = 404, rtype = Cors, redirected = False, headers = [], body = ''gone''\<rparr>),
       (''https://cdnjs.cloudflare.com/ajax/libs/pdf.js/3.11.174/pdf.min.js'',
            \<lparr>status = 200, rtype = Cors, redirected = False,
             headers = [(''Vary'', ''*'')], body = ''pdf''\<rparr>)]) []))
     ''anti333-cache-v2'' ''https://unpkg.com/docx@8.5.0/build/index.umd.js'' =
     Some \<lparr>status = 200, rtype = Cors, redirected = False, headers = [], body = ''docx''\<rparr> \<and>
   ConsoleLog ''[SW] Could not cache: https://cdnjs.cloudflare.com/ajax/libs/mammoth/1.6.0/mammoth.browser.min.js''
     \<in> set (trace (install ''https://app.example''
     (map (\<lambda>p. (''https://app.example'' @ p,
            \<lparr>status = 200, rtype = Basic, redirected = False, headers = [], body = ''asset''\<rparr>))
        STATIC_ASSETS @
      [(''https://unpkg.com/docx@8.5.0/build/index.umd.js'',
            \<lparr>status = 200, rtype = Cors, redirected = False, headers = [], body = ''docx''\<rparr>),
       (''https://cdnjs.cloudflare.com/ajax/libs/FileSaver.js/2.0.5/FileSaver.min.js'',
            \<lparr>status = 404, rtype = Cors, redirected = False, headers = [], body = ''gone''\<rparr>),
       (''https://cdnjs.cloudflare.com/ajax/libs/pdf.js/3.11.174/pdf.min.js'',
            \<lparr>status = 200, rtype = Cors, redirected = False,
             headers = [(''Vary'', ''*'')], body = ''pdf''\<rparr>)]) [])) \<and>
   ConsoleLog ''[SW] Could not cache: https://cdnjs.cloudflare.com/ajax/libs/pdf.js/3.11.174/pdf.min.js''
     \<in> set (trace (install ''https://app.example''
     (map (\<lambda>p. (''https://app.example'' @ p,
            \<lparr>status = 200, rtype = Basic, redirected = False, headers = [], body = ''asset''\<rparr>))
        STATIC_ASSETS @
      [(''https://unpkg.com/docx@8.5.0/build/index.umd.js'',
            \<lparr>status = 200, rtype = Cors, redirected = False, headers = [], body = ''docx''\<rparr>),
       (''https://cdnjs.cloudflare.com/ajax/libs/FileSaver.js/2.0.5/FileSaver.min.js'',
            \<lparr>status = 404, rtype = Cors, redirected = False, headers = [], body = ''gone''\<rparr>),
       (''https://cdnjs.cloudflare.com/ajax/libs/pdf.js/3.11.174/pdf.min.js'',
            \<lparr>status = 200, rtype = Cors, redirected = False,
             headers = [(''Vary'', ''*'')], body = ''pdf''\<rparr>)]) [])) \<and>
   ConsoleLog ''[SW] Could not cache: https://cdnjs.cloudflare.com/ajax/libs/FileSaver.js/2.0.5/FileSaver.min.js''
     \<notin> set (trace (install ''https://app.example''
     (map (\<lambda>p. (''https://app.example'' @ p,
            \<lparr>status = 200, rtype = Basic, redirected = False, headers = [], body = ''asset''\<rparr>))
        STATIC_ASSETS @
      [(''https://unpkg.com/docx@8.5.0/build/index.umd.js'',
            \<lparr>status = 200, rtype = Cors, redirected = False, headers = [], body = ''docx''\<rparr>),
       (''https://cdnjs.cloudflare.com/ajax/libs/FileSaver.js/2.0.5/FileSaver.min.js'',
            \<lparr>status = 404, rtype = Cors, redirected = False, headers = [], body = ''gone''\<rparr>),
       (''https://cdnjs.cloudflare.com/ajax/libs/pdf.js/3.11.174/pdf.min.js'',
            \<lparr>status = 200, rtype = Cors, redirected = False,
             headers = [(''Vary'', ''*'')], body = ''pdf''\<rparr>)]) []))"
proof -
  let ?net = "(map (\<lambda>p. (''https://app.example'' @ p,
            \<lparr>status = 200, rtype = Basic, redirected = False, headers = [], body = ''asset''\<rparr>))
        STATIC_ASSETS @
      [(''https://unpkg.com/docx@8.5.0/build/index.umd.js'',
            \<lparr>status = 200, rtype = Cors, redirected = False, headers = [], body = ''docx''\<rparr>),
       (''https://cdnjs.cloudflare.com/ajax/libs/FileSaver.js/2.0.5/FileSaver.min.js'',
            \<lparr>status = 404, rtype = Cors, redirected = False, headers = [], body = ''gone''\<rparr>),
       (''https://cdnjs.cloudflare.com/ajax/libs/pdf.js/3.11.174/pdf.min.js'',
            \<lparr>status = 200, rtype = Cors, redirected = False,
             headers = [(''Vary'', ''*'')], body = ''pdf''\<rparr>)])"
  let ?docx = "\<lparr>status = 200, rtype = Cors, redirected = False, headers = [], body = ''docx''\<rparr>"
  let ?gone = "\<lparr>status = 404, rtype = Cors, redirected = False, headers = [], body = ''gone''\<rparr>"
  let ?pdf = "\<lparr>status = 200, rtype = Cors, redirected = False,
             headers = [(''Vary'', ''*'')], body = ''pdf''\<rparr>"
  have h: "\<forall>p \<in> set STATIC_ASSETS.
      \<exists>r. fetch ?net (resolve ''https://app.example'' p) = Fulfilled r \<and> ok r \<and>
        (status r \<noteq> 206 \<and> \<not> vary_star r)"
    by (simp add: STATIC_ASSETS_def fetch_def resolve_def ok_def vary_star_def)
  have e1: "''https://unpkg.com/docx@8.5.0/build/index.umd.js'' \<in> set EXTERNAL_ASSETS"
    and e2: "''https://cdnjs.cloudflare.com/ajax/libs/mammoth/1.6.0/mammoth.browser.min.js''
       \<in> set EXTERNAL_ASSETS"
    and e3: "''https://cdnjs.cloudflare.com/ajax/libs/FileSaver.js/2.0.5/FileSaver.min.js''
       \<in> set EXTERNAL_ASSETS"
    and e4: "''https://cdnjs.cloudflare.com/ajax/libs/pdf.js/3.11.174/pdf.min.js''
       \<in> set EXTERNAL_ASSETS"
    by (simp_all add: EXTERNAL_ASSETS_def)
  have f1: "fetch ?net ''https://unpkg.com/docx@8.5.0/build/index.umd.js'' = Fulfilled ?docx"
    by (simp add: STATIC_ASSETS_def fetch_def)
  have f2: "fetch ?net
      ''https://cdnjs.cloudflare.com/ajax/libs/mammoth/1.6.0/mammoth.browser.min.js'' =
      Rejected NetworkError"
    by (simp add: STATIC_ASSETS_def fetch_def)
  have f3: "fetch ?net
      ''https://cdnjs.cloudflare.com/ajax/libs/FileSaver.js/2.0.5/FileSaver.min.js'' =
      Fulfilled ?gone"
    by (simp add: STATIC_ASSETS_def fetch_def)
  have f4: "fetch ?net ''https://cdnjs.cloudflare.com/ajax/libs/pdf.js/3.11.174/pdf.min.js'' =
      Fulfilled ?pdf"
    by (simp add: STATIC_ASSETS_def fetch_def)
  have o1: "ok ?docx \<and> (status ?docx \<noteq> 206 \<and> \<not> vary_star ?docx)"
    and o3: "\<not> ok ?gone"
    and o4: "ok ?pdf \<and> \<not> (status ?pdf \<noteq> 206 \<and> \<not> vary_star ?pdf)"
    by (simp_all add: ok_def vary_star_def lower_def trim_def is_blank_def)
  note t = install_external_independent [OF h, of "[]"]
  from t have a: "outcome (install ''https://app.example'' ?net []) = Fulfilled ()"
    by (rule conjunct1)
  note t1 = t [THEN conjunct2, THEN conjunct1, rule_format, OF e1]
  note t2 = t [THEN conjunct2, THEN conjunct2, THEN conjunct1, rule_format, OF e2]
  note t3 = t [THEN conjunct2, THEN conjunct2, THEN conjunct2, THEN conjunct1,
      rule_format, OF e4]
  note t4 = t [THEN conjunct2, THEN conjunct2, THEN conjunct2, THEN conjunct2, THEN conjunct1,
      rule_format, OF e3]
  have b: "entry_of (storage (install ''https://app.example'' ?net []))
      CACHE_NAME ''https://unpkg.com/docx@8.5.0/build/index.umd.js'' = Some ?docx"
    by (rule t1 [OF conjI [OF f1 o1]])
  have "ConsoleLog (''[SW] Could not cache: '' @
      ''https://cdnjs.cloudflare.com/ajax/libs/mammoth/1.6.0/mammoth.browser.min.js'')
      \<in> set (trace (install ''https://app.example'' ?net []))"
    using f2 by (rule t2)
  then have c: "ConsoleLog
      ''[SW] Could not cache: https://cdnjs.cloudflare.com/ajax/libs/mammoth/1.6.0/mammoth.browser.min.js''
      \<in> set (trace (install ''https://app.example'' ?net []))"
    by simp
  have "ConsoleLog (''[SW] Could not cache: '' @
      ''https://cdnjs.cloudflare.com/ajax/libs/pdf.js/3.11.174/pdf.min.js'')
      \<in> set (trace (install ''https://app.example'' ?net []))"
    by (rule t3 [OF conjI [OF f4 o4]])
  then have c4: "ConsoleLog
      ''[SW] Could not cache: https://cdnjs.cloudflare.com/ajax/libs/pdf.js/3.11.174/pdf.min.js''
      \<in> set (trace (install ''https://app.example'' ?net []))"
    by simp
  have "ConsoleLog (''[SW] Could not cache: '' @
      ''https://cdnjs.cloudflare.com/ajax/libs/FileSaver.js/2.0.5/FileSaver.min.js'')
      \<notin> set (trace (install ''https://app.example'' ?net []))"
    by (rule t4 [OF conjI [OF f3 o3], THEN conjunct2])
  then have d: "ConsoleLog
      ''[SW] Could not cache: https://cdnjs.cloudflare.com/ajax/libs/FileSaver.js/2.0.5/FileSaver.min.js''
      \<notin> set (trace (install ''https://app.example'' ?net []))"
    by simp
  from a b c c4 d show ?thesis
    by (simp add: CACHE_NAME_def)
qed

text \<open>
  The claim as written fails: an external entry that the network answers with status
  404 is a failed attempt that is not logged. The install is fulfilled, the entry is not
  in the cache, no put was called for it and the trace has no line for it.
\<close>

theorem install_external_not_logged_counterexample:
  "fetch [(''https://app.example/'',
         \<lparr>status = 200, rtype = Basic, redirected = False, headers = [], body = ''asset''\<rparr>),
      (''https://app.example/index.html'',
         \<lparr>status = 200, rtype = Basic, redirected = False, headers = [], body = ''asset''\<rparr>),
      (''https://app.example/manifest.json'',
         \<lparr>status = 200, rtype = Basic, redirected = False, headers = [], body = ''asset''\<rparr>),
      (''https://app.example/favicon-32.ico'',
         \<lparr>status = 200, rtype = Basic, redirected = False, headers = [], body = ''asset''\<rparr>),
      (''https://app.example/favicon-96.png'',
         \<lparr>status = 200, rtype = Basic, redirected = False, headers = [], body = ''asset''\<rparr>),
      (''https://app.example/apple-touch-icon.png'',
         \<lparr>status = 200, rtype = Basic, redirected = False, headers = [], body = ''asset''\<rparr>),
      (''https://app.example/icon-192.png'',
         \<lparr>status = 200, rtype = Basic, redirected = False, headers = [], body = ''asset''\<rparr>),
      (''https://app.example/icon-512.png'',
         \<lparr>status = 200, rtype = Basic, redirected = False, headers = [], body = ''asset''\<rparr>),
      (''https://unpkg.com/docx@8.5.0/build/index.umd.js'',
         \<lparr>status = 200, rtype = Cors, redirected = False, headers = [], body = ''docx''\<rparr>),
      (''https://cdnjs.cloudflare.com/ajax/libs/FileSaver.js/2.0.5/FileSaver.min.js'',
         \<lparr>status = 404, rtype = Cors, redirected = False, headers = [], body = ''gone''\<rparr>)]
     ''https://cdnjs.cloudflare.com/ajax/libs/FileSaver.js/2.0.5/FileSaver.min.js'' =
     Fulfilled \<lparr>status = 404, rtype = Cors, redirected = False, headers = [], body = ''gone''\<rparr> \<and>
   outcome (install ''https://app.example''
     [(''https://app.example/'',
         \<lparr>status = 200, rtype = Basic, redirected = False, headers = [], body = ''asset''\<rparr>),
      (''https://app.example/index.html'',
         \<lparr>status = 200, rtype = Basic, redirected = False, headers = [], body = ''asset''\<rparr>),
      (''https://app.example/manifest.json'',
         \<lparr>status = 200, rtype = Basic, redirected = False, headers = [], body = ''asset''\<rparr>),
      (''https://app.example/favicon-32.ico'',
         \<lparr>status = 200, rtype = Basic, redirected = False, headers = [], body = ''asset''\<rparr>),
      (''https://app.example/favicon-96.png'',
         \<lparr>status = 200, rtype = Basic, redirected = False, headers = [], body = ''asset''\<rparr>),
      (''https://app.example/apple-touch-icon.png'',
         \<lparr>status = 200, rtype = Basic, redirected = False, headers = [], body = ''asset''\<rparr>),
      (''https://app.example/icon-192.png'',
         \<lparr>status = 200, rtype = Basic, redirected = False, headers = [], body = ''asset''\<rparr>),
      (''https://app.example/icon-512.png'',
         \<lparr>status = 200, rtype = Basic, redirected = False, headers = [], body = ''asset''\<rparr>),
      (''https://unpkg.com/docx@8.5.0/build/index.umd.js'',
         \<lparr>status = 200, rtype = Cors, redirected = False, headers = [], body = ''docx''\<rparr>),
      (''https://cdnjs.cloudflare.com/ajax/libs/FileSaver.js/2.0.5/FileSaver.min.js'',
         \<lparr>status = 404, rtype = Cors, redirected = False, headers = [], body = ''gone''\<rparr>)] []) = Fulfilled () \<and>
   entry_of (storage (install ''https://app.example''
     [(''https://app.example/'',
         \<lparr>status = 200, rtype = Basic, redirected = False, headers = [], body = ''asset''\<rparr>),
      (''https://app.example/index.html'',
         \<lparr>status = 200, rtype = Basic, redirected = False, headers = [], body = ''asset''\<rparr>),
      (''https://app.example/manifest.json'',
         \<lparr>status = 200, rtype = Basic, redirected = False, headers = [], body = ''asset''\<rparr>),
      (''https://app.example/favicon-32.ico'',
         \<lparr>status = 200, rtype = Basic, redirected = False, headers = [], body = ''asset''\<rparr>),
      (''https://app.example/favicon-96.png'',
         \<lparr>status = 200, rtype = Basic, redirected = False, headers = [], body = ''asset''\<rparr>),
      (''https://app.example/apple-touch-icon.png'',
         \<lparr>status = 200, rtype = Basic, redirected = False, headers = [], body = ''asset''\<rparr>),
      (''https://app.example/icon-192.png'',
         \<lparr>status = 200, rtype = Basic, redirected = False, headers = [], body = ''asset''\<rparr>),
      (''https://app.example/icon-512.png'',
         \<lparr>status = 200, rtype = Basic, redirected = False, headers = [], body = ''asset''\<rparr>),
      (''https://unpkg.com/docx@8.5.0/build/index.umd.js'',
         \<lparr>status = 200, rtype = Cors, redirected = False, headers = [], body = ''docx''\<rparr>),
      (''https://cdnjs.cloudflare.com/ajax/libs/FileSaver.js/2.0.5/FileSaver.min.js'',
         \<lparr>status = 404, rtype = Cors, redirected = False, headers = [], body = ''gone''\<rparr>)] []))
     ''anti333-cache-v2''
     ''https://cdnjs.cloudflare.com/ajax/libs/FileSaver.js/2.0.5/FileSaver.min.js'' = None \<and>
   ConsoleLog ''[SW] Could not cache: https://cdnjs.cloudflare.com/ajax/libs/FileSaver.js/2.0.5/FileSaver.min.js''
     \<notin> set (trace (install ''https://app.example''
     [(''https://app.example/'',
         \<lparr>status = 200, rtype = Basic, redirected = False, headers = [], body = ''asset''\<rparr>),
      (''https://app.example/index.html'',
         \<lparr>status = 200, rtype = Basic, redirected = False, headers = [], body = ''asset''\<rparr>),
      (''https://app.example/manifest.json'',
         \<lparr>status = 200, rtype = Basic, redirected = False, headers = [], body = ''asset''\<rparr>),
      (''https://app.example/favicon-32.ico'',
         \<lparr>status = 200, rtype = Basic, redirected = False, headers = [], body = ''asset''\<rparr>),
      (''https://app.example/favicon-96.png'',
         \<lparr>status = 200, rtype = Basic, redirected = False, headers = [], body = ''asset''\<rparr>),
      (''https://app.example/apple-touch-icon.png'',
         \<lparr>status = 200, rtype = Basic, redirected = False, headers = [], body = ''asset''\<rparr>),
      (''https://app.example/icon-192.png'',
         \<lparr>status = 200, rtype = Basic, redirected = False, headers = [], body = ''asset''\<rparr>),
      (''https://app.example/icon-512.png'',
         \<lparr>status = 200, rtype = Basic, redirected = False, headers = [], body = ''asset''\<rparr>),
      (''https://unpkg.com/docx@8.5.0/build/index.umd.js'',
         \<lparr>status = 200, rtype = Cors, redirected = False, headers = [], body = ''docx''\<rparr>),
      (''https://cdnjs.cloudflare.com/ajax/libs/FileSaver.js/2.0.5/FileSaver.min.js'',
         \<lparr>status = 404, rtype = Cors, redirected = False, headers = [], body = ''gone''\<rparr>)] []))"
proof -
  let ?net = "[(''https://app.example/'',
         \<lparr>status = 200, rtype = Basic, redirected = False, headers = [], body = ''asset''\<rparr>),
      (''https://app.example/index.html'',
         \<lparr>status = 200, rtype = Basic, redirected = False, headers = [], body = ''asset''\<rparr>),
      (''https://app.example/manifest.json'',
         \<lparr>status = 200, rtype = Basic, redirected = False, headers = [], body = ''asset''\<rparr>),
      (''https://app.example/favicon-32.ico'',
         \<lparr>status = 200, rtype = Basic, redirected = False, headers = [], body = ''asset''\<rparr>),
      (''https://app.example/favicon-96.png'',
         \<lparr>status = 200, rtype = Basic, redirected = False, headers = [], body = ''asset''\<rparr>),
      (''https://app.example/apple-touch-icon.png'',
         \<lparr>status = 200, rtype = Basic, redirected = False, headers = [], body = ''asset''\<rparr>),
      (''https://app.example/icon-192.png'',
         \<lparr>status = 200, rtype = Basic, redirected = False, headers = [], body = ''asset''\<rparr>),
      (''https://app.example/icon-512.png'',
         \<lparr>status = 200, rtype = Basic, redirected = False, headers = [], body = ''asset''\<rparr>),
      (''https://unpkg.com/docx@8.5.0/build/index.umd.js'',
         \<lparr>status = 200, rtype = Cors, redirected = False, headers = [], body = ''docx''\<rparr>),
      (''https://cdnjs.cloudflare.com/ajax/libs/FileSaver.js/2.0.5/FileSaver.min.js'',
         \<lparr>status = 404, rtype = Cors, redirected = False, headers = [], body = ''gone''\<rparr>)]"
  let ?u = "''https://cdnjs.cloudflare.com/ajax/libs/FileSaver.js/2.0.5/FileSaver.min.js''"
  have h: "\<forall>p \<in> set STATIC_ASSETS.
      \<exists>r. fetch ?net (resolve ''https://app.example'' p) = Fulfilled r \<and> ok r \<and>
        put_accepts r"
    by (simp add: STATIC_ASSETS_def fetch_def resolve_def ok_def put_accepts_def
        vary_star_def)
  have f: "fetch ?net ?u =
      Fulfilled \<lparr>status = 404, rtype = Cors, redirected = False, headers = [], body = ''gone''\<rparr>"
    by (simp add: fetch_def)
  have n: "?u \<notin> set (map (resolve ''https://app.example'') STATIC_ASSETS)"
    by (simp add: STATIC_ASSETS_def resolve_def)
  have o: "outcome (install ''https://app.example'' ?net []) = Fulfilled ()"
    using h by (rule install_outcome)
  have "entry_of (storage (install ''https://app.example'' ?net [])) CACHE_NAME ?u =
      (case fetch ?net ?u of
        Fulfilled r \<Rightarrow>
          if ?u \<in> set EXTERNAL_ASSETS \<and> ok r \<and> put_accepts r then Some r
          else entry_of [] CACHE_NAME ?u
      | Rejected e \<Rightarrow> entry_of [] CACHE_NAME ?u)"
    using h n by (rule install_entry)
  then have e: "entry_of (storage (install ''https://app.example'' ?net [])) CACHE_NAME ?u = None"
    unfolding f by (simp add: ok_def entry_of_def)
  have "(ConsoleLog (''[SW] Could not cache: '' @ ?u) \<in>
        set (trace (install ''https://app.example'' ?net []))) =
      (?u \<in> set EXTERNAL_ASSETS \<and>
       (case fetch ?net ?u of
          Fulfilled r \<Rightarrow> ok r \<and> \<not> put_accepts r
        | Rejected e \<Rightarrow> True))"
    using h by (rule install_logged)
  then have "ConsoleLog (''[SW] Could not cache: '' @ ?u) \<notin>
        set (trace (install ''https://app.example'' ?net []))"
    unfolding f by (simp add: ok_def)
  then have l: "ConsoleLog
      ''[SW] Could not cache: https://cdnjs.cloudflare.com/ajax/libs/FileSaver.js/2.0.5/FileSaver.min.js''
      \<notin> set (trace (install ''https://app.example'' ?net []))"
    by simp
  from f o e l show ?thesis
    by (simp add: CACHE_NAME_def)
qed

section \<open>The activate handler: eviction of the other caches\<close>

text \<open>
  C6. At the end of the activate handler, whose promise is fulfilled, every name that the
  storage had before and that differs from \<^verbatim>\<open>CACHE_NAME\<close> is gone, the cache of the
  current name has the content it had before, and is present when it was present
  before, and \<^verbatim>\<open>clients.claim()\<close> is the last effect, called once, after the deletion of
  every such name.
\<close>

theorem activate_evicts_stale:
  "outcome (activate st) = Fulfilled () \<and>
   (\<forall>name \<in> set (caches_keys st). name \<noteq> CACHE_NAME \<longrightarrow>
      name \<notin> set (caches_keys (storage (activate st)))) \<and>
   cache_of (storage (activate st)) CACHE_NAME = cache_of st CACHE_NAME \<and>
   (CACHE_NAME \<in> set (caches_keys st) \<longrightarrow>
      CACHE_NAME \<in> set (caches_keys (storage (activate st)))) \<and>
   (\<exists>tr. trace (activate st) = tr @ [ClientsClaim] \<and> ClientsClaim \<notin> set tr \<and>
      (\<forall>name \<in> set (caches_keys st). name \<noteq> CACHE_NAME \<longrightarrow> CacheDelete name \<in> set tr))"
proof (intro conjI)
  show "outcome (activate st) = Fulfilled ()"
    by (simp add: activate_def)
  show "\<forall>name \<in> set (caches_keys st). name \<noteq> CACHE_NAME \<longrightarrow>
      name \<notin> set (caches_keys (storage (activate st)))"
    by (auto simp: storage_activate caches_keys_def)
  show "cache_of (storage (activate st)) CACHE_NAME = cache_of st CACHE_NAME"
    by (simp add: storage_activate cache_of_def map_of_filter_key)
  show "CACHE_NAME \<in> set (caches_keys st) \<longrightarrow>
      CACHE_NAME \<in> set (caches_keys (storage (activate st)))"
    by (auto simp: storage_activate caches_keys_def)
  show "\<exists>tr. trace (activate st) = tr @ [ClientsClaim] \<and> ClientsClaim \<notin> set tr \<and>
      (\<forall>name \<in> set (caches_keys st). name \<noteq> CACHE_NAME \<longrightarrow> CacheDelete name \<in> set tr)"
    by (rule exI [of _ "[ConsoleLog ''[SW] Activating service worker...'', CacheKeys] @
              concat (map (\<lambda>name. [ConsoleLog (''[SW] Deleting old cache: '' @ name),
                                      CacheDelete name]) (stale_names st))"])
       (auto simp: activate_def stale_names_def)
qed

text \<open>
  A storage with the cache of the previous version, the current cache and a cache made
  by the page: the two others are gone and the current cache is as it was.
\<close>

theorem activate_evicts_stale_witness:
  "''anti333-cache-v1'' \<in> set (caches_keys
     [(''anti333-cache-v1'', [(''https://app.example/'',
         \<lparr>status = 200, rtype = Basic, redirected = False, headers = [], body = ''v1''\<rparr>)]),
      (''anti333-cache-v2'', [(''https://app.example/'',
         \<lparr>status = 200, rtype = Basic, redirected = False, headers = [], body = ''v2''\<rparr>)]),
      (''thumbnails'', [])]) \<and>
   ''anti333-cache-v1'' \<notin> set (caches_keys (storage (activate
     [(''anti333-cache-v1'', [(''https://app.example/'',
         \<lparr>status = 200, rtype = Basic, redirected = False, headers = [], body = ''v1''\<rparr>)]),
      (''anti333-cache-v2'', [(''https://app.example/'',
         \<lparr>status = 200, rtype = Basic, redirected = False, headers = [], body = ''v2''\<rparr>)]),
      (''thumbnails'', [])]))) \<and>
   ''thumbnails'' \<notin> set (caches_keys (storage (activate
     [(''anti333-cache-v1'', [(''https://app.example/'',
         \<lparr>status = 200, rtype = Basic, redirected = False, headers = [], body = ''v1''\<rparr>)]),
      (''anti333-cache-v2'', [(''https://app.example/'',
         \<lparr>status = 200, rtype = Basic, redirected = False, headers = [], body = ''v2''\<rparr>)]),
      (''thumbnails'', [])]))) \<and>
   cache_of (storage (activate
     [(''anti333-cache-v1'', [(''https://app.example/'',
         \<lparr>status = 200, rtype = Basic, redirected = False, headers = [], body = ''v1''\<rparr>)]),
      (''anti333-cache-v2'', [(''https://app.example/'',
         \<lparr>status = 200, rtype = Basic, redirected = False, headers = [], body = ''v2''\<rparr>)]),
      (''thumbnails'', [])])) ''anti333-cache-v2'' =
     Some [(''https://app.example/'',
         \<lparr>status = 200, rtype = Basic, redirected = False, headers = [], body = ''v2''\<rparr>)]"
  using activate_evicts_stale [of
    "[(''anti333-cache-v1'', [(''https://app.example/'',
         \<lparr>status = 200, rtype = Basic, redirected = False, headers = [], body = ''v1''\<rparr>)]),
      (''anti333-cache-v2'', [(''https://app.example/'',
         \<lparr>status = 200, rtype = Basic, redirected = False, headers = [], body = ''v2''\<rparr>)]),
      (''thumbnails'', [])]"]
  by (simp add: caches_keys_def cache_of_def CACHE_NAME_def)

end
